theory Spec2Isabelle
  imports Complex_Main "HOL-Library.Multiset"
begin

section \<open>Machine integers and time\<close>

text \<open>
  Go's \<open>int\<close>, \<open>int64\<close> and \<open>time.Duration\<close> are 64-bit signed integers. They are
  modelled as \<open>int\<close>; every addition, subtraction and negation that can leave the range
  in the source is followed by \<open>wrap64\<close>, the two's complement wrap-around.
  A \<open>time.Time\<close> is the number of nanoseconds since the Unix epoch.
\<close>

definition wrap64 :: "int \<Rightarrow> int" where
  "wrap64 x = (x + 9223372036854775808) mod 18446744073709551616 - 9223372036854775808"

definition wrap32 :: "int \<Rightarrow> int" where
  "wrap32 x = (x + 2147483648) mod 4294967296 - 2147483648"

definition minDuration :: int where
  "minDuration = - 9223372036854775808"

definition maxDuration :: int where
  "maxDuration = 9223372036854775807"

definition Millisecond :: int where
  "Millisecond = 1000000"

definition Second :: int where
  "Second = 1000000000"

definition Hour :: int where
  "Hour = 3600000000000"

text \<open>\<open>time.Since(t)\<close> read at the instant \<open>now\<close>: \<open>Time.Sub\<close> saturates.\<close>

definition Since :: "int \<Rightarrow> int \<Rightarrow> int" where
  "Since now t =
     (if now - t < minDuration then minDuration
      else if now - t > maxDuration then maxDuration
      else now - t)"

text \<open>The zero \<open>time.Time\<close> is January 1, year 1, 00:00 UTC.\<close>

definition zeroTime :: int where
  "zeroTime = - 62135596800000000000"

definition IsZero :: "int \<Rightarrow> bool" where
  "IsZero t = (t = zeroTime)"

section \<open>Strings\<close>

text \<open>
  A Go string is a byte sequence, read as UTF-8 by the functions of package \<open>strings\<close>.

  \<open>strings.TrimSpace\<close> removes the leading and the trailing white space of Unicode
  (\<open>unicode.IsSpace\<close>): the six ASCII bytes of \<open>isSpace\<close>, and the code points U+0085,
  U+00A0, U+1680, U+2000 to U+200A, U+2028, U+2029, U+202F, U+205F and U+3000, which
  are the byte sequences of \<open>unicodeSpaces\<close>. A byte that starts no valid encoding of
  one of them decodes to a rune that is not white space, so trimming is stripping these
  sequences from the front, then from the back.
\<close>

definition isSpace :: "char \<Rightarrow> bool" where
  "isSpace c = (c = CHR '' '' \<or> c = CHR 0x09 \<or> c = CHR 0x0A \<or> c = CHR 0x0B
                \<or> c = CHR 0x0C \<or> c = CHR 0x0D)"

definition unicodeSpaces :: "string list" where
  "unicodeSpaces =
     [[CHR 0xC2, CHR 0x85], [CHR 0xC2, CHR 0xA0], [CHR 0xE1, CHR 0x9A, CHR 0x80],
      [CHR 0xE2, CHR 0x80, CHR 0x80], [CHR 0xE2, CHR 0x80, CHR 0x81],
      [CHR 0xE2, CHR 0x80, CHR 0x82], [CHR 0xE2, CHR 0x80, CHR 0x83],
      [CHR 0xE2, CHR 0x80, CHR 0x84], [CHR 0xE2, CHR 0x80, CHR 0x85],
      [CHR 0xE2, CHR 0x80, CHR 0x86], [CHR 0xE2, CHR 0x80, CHR 0x87],
      [CHR 0xE2, CHR 0x80, CHR 0x88], [CHR 0xE2, CHR 0x80, CHR 0x89],
      [CHR 0xE2, CHR 0x80, CHR 0x8A], [CHR 0xE2, CHR 0x80, CHR 0xA8],
      [CHR 0xE2, CHR 0x80, CHR 0xA9], [CHR 0xE2, CHR 0x80, CHR 0xAF],
      [CHR 0xE2, CHR 0x81, CHR 0x9F], [CHR 0xE3, CHR 0x80, CHR 0x80]]"

text \<open>What is left of \<open>s\<close> after the first of the sequences that it starts with.\<close>

fun stripFirst :: "string list \<Rightarrow> string \<Rightarrow> string option" where
  "stripFirst [] s = None"
| "stripFirst (w # ws) s =
     (if w \<noteq> [] \<and> take (length w) s = w then Some (drop (length w) s) else stripFirst ws s)"

text \<open>
  \<open>strings.TrimLeftFunc(s, unicode.IsSpace)\<close>; with the sequences reversed, on the
  reversed string, it is \<open>strings.TrimRightFunc\<close>.
\<close>

function trimLeft :: "string list \<Rightarrow> string \<Rightarrow> string" where
  "trimLeft ws s =
     (if s = [] then []
      else if isSpace (hd s) then trimLeft ws (tl s)
      else (case stripFirst ws s of
              Some r \<Rightarrow> if length r < length s then trimLeft ws r else s
            | None \<Rightarrow> s))"
  by pat_completeness auto
termination
  by (relation "measure (\<lambda>(ws, s). length s)") auto

declare trimLeft.simps [simp del]

definition TrimSpace :: "string \<Rightarrow> string" where
  "TrimSpace s = rev (trimLeft (map rev unicodeSpaces) (rev (trimLeft unicodeSpaces s)))"

text \<open>
  \<open>strings.ToUpper\<close>, \<open>strings.ToLower\<close> and \<open>strings.EqualFold\<close> are computed here on
  ASCII strings, where they change the 26 letters only. On a string with a byte above
  0x7F they follow the case tables of Unicode, which are not modelled: the results are
  the fields of a \<open>caselib\<close>, about which nothing is assumed.
\<close>

definition isASCII :: "string \<Rightarrow> bool" where
  "isASCII s = list_all (\<lambda>c. (of_char c :: nat) < 128) s"

record caselib =
  upperNonASCII :: "string \<Rightarrow> string"
  lowerNonASCII :: "string \<Rightarrow> string"
  equalFoldNonASCII :: "string \<Rightarrow> string \<Rightarrow> bool"

definition toUpperChar :: "char \<Rightarrow> char" where
  "toUpperChar c =
     (if (97::nat) \<le> of_char c \<and> (of_char c :: nat) \<le> 122
      then char_of ((of_char c :: nat) - 32) else c)"

definition toLowerChar :: "char \<Rightarrow> char" where
  "toLowerChar c =
     (if (65::nat) \<le> of_char c \<and> (of_char c :: nat) \<le> 90
      then char_of ((of_char c :: nat) + 32) else c)"

definition ToUpper :: "'a caselib_scheme \<Rightarrow> string \<Rightarrow> string" where
  "ToUpper lib s = (if isASCII s then map toUpperChar s else upperNonASCII lib s)"

definition ToLower :: "'a caselib_scheme \<Rightarrow> string \<Rightarrow> string" where
  "ToLower lib s = (if isASCII s then map toLowerChar s else lowerNonASCII lib s)"

definition EqualFold :: "'a caselib_scheme \<Rightarrow> string \<Rightarrow> string \<Rightarrow> bool" where
  "EqualFold lib a b =
     (if isASCII a \<and> isASCII b then map toLowerChar a = map toLowerChar b
      else equalFoldNonASCII lib a b)"

section \<open>Data model (package types)\<close>

record MultipartUpload =
  Bucket :: string
  Key :: string
  UploadID :: string
  Initiated :: int
  Size :: int
  StorageClass :: string
  Region :: string

record S3Bucket =
  Name :: string
  b_Region :: string
  b_Uploads :: "MultipartUpload list"

record ListOptions =
  lo_Region :: string
  lo_BucketName :: string
  MaxResults :: int
  Offset :: int

record DeleteOptions =
  DryRun :: bool
  Force :: bool
  OlderThan :: "int option"
  SmallerThan :: "int option"
  LargerThan :: "int option"
  do_BucketName :: string
  Quiet :: bool

text \<open>
  What the code observes of an error of the AWS SDK: whether \<open>errors.As\<close> finds a
  \<open>net.Error\<close> (with its \<open>Timeout()\<close> and \<open>Temporary()\<close>), whether it finds a
  \<open>NoSuchBucket\<close>, and the text of \<open>Error()\<close>.
\<close>

record sdk_error =
  asNetError :: "(bool \<times> bool) option"
  asNoSuchBucket :: bool
  errString :: string

text \<open>
  The errors of the program. \<open>Wrap msg e\<close> is \<open>fmt.Errorf(msg + ": %w", e)\<close>,
  \<open>Errorf msg\<close> an error that is only a message, \<open>NumError\<close> the error of
  \<open>strconv\<close>; the constructors with numbers are the formatted aggregate errors.
\<close>

datatype error =
    ValidationError string string
  | Sdk sdk_error
  | ContextError
  | EOF
  | Wrap string error
  | NoUploadsMatch
  | CancelledByUser
  | DeleteFailed int int
  | ListFailed int
  | RetriesExhausted int "error option"
  | Errorf string
  | NumError

datatype panic = SliceBoundsOutOfRange

text \<open>\<open>ListOptions.Validate\<close> and \<open>DeleteOptions.Validate\<close>; \<open>None\<close> is a nil error.\<close>

definition ListOptions_Validate :: "ListOptions \<Rightarrow> error option" where
  "ListOptions_Validate l =
     (if MaxResults l < 0 then Some (ValidationError ''MaxResults'' ''max results cannot be negative'')
      else if Offset l < 0 then Some (ValidationError ''Offset'' ''offset cannot be negative'')
      else None)"

definition DeleteOptions_Validate :: "DeleteOptions \<Rightarrow> error option" where
  "DeleteOptions_Validate d =
     (case SmallerThan d of
        Some s \<Rightarrow> if s < 0
          then Some (ValidationError ''SmallerThan'' ''smaller than value cannot be negative'')
          else (case LargerThan d of
                  Some l \<Rightarrow> if l < 0
                    then Some (ValidationError ''LargerThan'' ''larger than value cannot be negative'')
                    else if s \<le> l
                    then Some (ValidationError ''SmallerThan''
                                 ''smaller than value must be greater than larger than value'')
                    else None
                | None \<Rightarrow> None)
      | None \<Rightarrow> (case LargerThan d of
                  Some l \<Rightarrow> if l < 0
                    then Some (ValidationError ''LargerThan'' ''larger than value cannot be negative'')
                    else None
                | None \<Rightarrow> None))"

text \<open>\<open>MultipartUpload.Validate\<close>.\<close>

definition MultipartUpload_Validate :: "MultipartUpload \<Rightarrow> error option" where
  "MultipartUpload_Validate m =
     (if TrimSpace (Bucket m) = [] then Some (ValidationError ''Bucket'' ''bucket name cannot be empty'')
      else if TrimSpace (Key m) = [] then Some (ValidationError ''Key'' ''key cannot be empty'')
      else if TrimSpace (UploadID m) = []
        then Some (ValidationError ''UploadID'' ''upload ID cannot be empty'')
      else if IsZero (Initiated m)
        then Some (ValidationError ''Initiated'' ''initiated time cannot be zero'')
      else if Size m < 0 then Some (ValidationError ''Size'' ''size cannot be negative'')
      else if TrimSpace (StorageClass m) = []
        then Some (ValidationError ''StorageClass'' ''storage class cannot be empty'')
      else if TrimSpace (Region m) = [] then Some (ValidationError ''Region'' ''region cannot be empty'')
      else None)"

section \<open>UploadService: listing\<close>

text \<open>The request and the answer of the remote \<open>ListMultipartUploads\<close> operation.\<close>

record ListMultipartUploadsInput =
  in_Bucket :: string
  KeyMarker :: "string option"
  UploadIdMarker :: "string option"
  MaxUploads :: "int option"

record S3Upload =
  u_Key :: "string option"
  u_UploadId :: "string option"
  u_Initiated :: "int option"
  u_StorageClass :: string

record ListMultipartUploadsOutput =
  out_Uploads :: "S3Upload list"
  IsTruncated :: "bool option"
  NextKeyMarker :: "string option"
  NextUploadIdMarker :: "string option"

type_synonym upload_client = "ListMultipartUploadsInput \<Rightarrow> error + ListMultipartUploadsOutput"

text \<open>
  The body of the conversion loop of \<open>listUploadsForBucket\<close>: an entry with a nil key,
  upload id or initiation time is skipped (\<open>continue\<close>).
\<close>

fun convertUploads :: "S3Bucket \<Rightarrow> S3Upload list \<Rightarrow> MultipartUpload list" where
  "convertUploads bucket [] = []"
| "convertUploads bucket (upload # rest) =
     (case (u_Key upload, u_UploadId upload, u_Initiated upload) of
        (Some k, Some i, Some t) \<Rightarrow>
          \<lparr> Bucket = Name bucket, Key = k, UploadID = i, Initiated = t, Size = 0,
            StorageClass = (if u_StorageClass upload \<noteq> [] then u_StorageClass upload else ''STANDARD''),
            Region = b_Region bucket \<rparr> # convertUploads bucket rest
      | _ \<Rightarrow> convertUploads bucket rest)"

text \<open>
  The pagination loop of \<open>listUploadsForBucket\<close>: \<open>capReached\<close> is its
  \<open>remaining <= 0\<close> exit and \<open>listRequest\<close> the request it builds. The remote decides
  whether the loop ends, so the loop takes fuel: \<open>None\<close> is a listing that has not
  returned within \<open>fuel\<close> requests. \<open>regional\<close> is \<open>getRegionalClient\<close>, the memoised constructor of
  one client per region, seen as a function of the region.
\<close>

definition capReached :: "ListOptions \<Rightarrow> MultipartUpload list \<Rightarrow> bool" where
  "capReached opts allUploads =
     (MaxResults opts > 0 \<and> MaxResults opts - int (length allUploads) \<le> 0)"

definition listRequest :: "S3Bucket \<Rightarrow> ListOptions \<Rightarrow> MultipartUpload list \<Rightarrow> string option
    \<Rightarrow> string option \<Rightarrow> ListMultipartUploadsInput" where
  "listRequest bucket opts allUploads keyMarker uploadIDMarker =
     \<lparr> in_Bucket = Name bucket, KeyMarker = keyMarker, UploadIdMarker = uploadIDMarker,
       MaxUploads = (if MaxResults opts > 0
                     then Some (wrap32 (MaxResults opts - int (length allUploads)))
                     else None) \<rparr>"

fun listLoop :: "nat \<Rightarrow> (string \<Rightarrow> error + upload_client) \<Rightarrow> S3Bucket \<Rightarrow> ListOptions
    \<Rightarrow> MultipartUpload list \<Rightarrow> string option \<Rightarrow> string option
    \<Rightarrow> (error + MultipartUpload list) option" where
  "listLoop 0 regional bucket opts allUploads keyMarker uploadIDMarker = None"
| "listLoop (Suc fuel) regional bucket opts allUploads keyMarker uploadIDMarker =
     (if capReached opts allUploads then Some (Inr allUploads)
      else
        case regional (b_Region bucket) of
          Inl err \<Rightarrow>
            Some (Inl (Wrap (''failed to create regional client for bucket '' @ Name bucket) err))
        | Inr regionalClient \<Rightarrow>
            (case regionalClient (listRequest bucket opts allUploads keyMarker uploadIDMarker) of
               Inl err \<Rightarrow>
                 Some (Inl (Wrap (''failed to list multipart uploads for bucket '' @ Name bucket) err))
             | Inr output \<Rightarrow>
                 if IsTruncated output = Some True
                 then listLoop fuel regional bucket opts
                        (allUploads @ convertUploads bucket (out_Uploads output))
                        (NextKeyMarker output) (NextUploadIdMarker output)
                 else Some (Inr (allUploads @ convertUploads bucket (out_Uploads output)))))"

definition listUploadsForBucket :: "nat \<Rightarrow> (string \<Rightarrow> error + upload_client) \<Rightarrow> S3Bucket
    \<Rightarrow> ListOptions \<Rightarrow> (error + MultipartUpload list) option" where
  "listUploadsForBucket fuel regional bucket opts =
     listLoop fuel regional bucket opts [] None None"

text \<open>\<open>uploads[lo:hi]\<close>: Go panics unless \<open>0 \<le> lo \<le> hi \<le> len\<close>.\<close>

definition slice :: "'a list \<Rightarrow> int \<Rightarrow> int \<Rightarrow> panic + 'a list" where
  "slice xs lo hi =
     (if 0 \<le> lo \<and> lo \<le> hi \<and> hi \<le> int (length xs)
      then Inr (take (nat (hi - lo)) (drop (nat lo) xs))
      else Inl SliceBoundsOutOfRange)"

definition applyPagination :: "MultipartUpload list \<Rightarrow> ListOptions \<Rightarrow> panic + MultipartUpload list" where
  "applyPagination uploads opts =
     (let start = Offset opts in
      if start \<ge> int (length uploads) then Inr []
      else
        let end0 = int (length uploads);
            end1 = (if MaxResults opts > 0 \<and> wrap64 (start + MaxResults opts) < end0
                    then wrap64 (start + MaxResults opts) else end0)
        in slice uploads start end1)"

text \<open>
  The collection loop of \<open>listUploadsForBuckets\<close> over the results in the order in
  which the channel delivers them.
\<close>

fun collectResults :: "(error + MultipartUpload list) list \<Rightarrow> MultipartUpload list \<Rightarrow> error list
    \<Rightarrow> MultipartUpload list \<times> error list" where
  "collectResults [] allUploads errors = (allUploads, errors)"
| "collectResults (Inl err # rest) allUploads errors = collectResults rest allUploads (errors @ [err])"
| "collectResults (Inr uploads # rest) allUploads errors =
     collectResults rest (allUploads @ uploads) errors"

fun sequence :: "'a option list \<Rightarrow> 'a list option" where
  "sequence [] = Some []"
| "sequence (None # xs) = None"
| "sequence (Some x # xs) = (case sequence xs of None \<Rightarrow> None | Some ys \<Rightarrow> Some (x # ys))"

text \<open>What \<open>listUploadsForBuckets\<close> writes to the standard error stream.\<close>

datatype stderr_line = BucketAccessError nat error | MoreErrors int

definition logErrors :: "error list \<Rightarrow> stderr_line list" where
  "logErrors errors =
     map (\<lambda>(i, err). BucketAccessError (i + 1) err) (zip [0 ..< length errors] (take 3 errors))
     @ (if length errors > 3 then [MoreErrors (int (length errors) - 3)] else [])"

record list_result =
  lr_uploads :: "MultipartUpload list"
  lr_error :: "error option"
  lr_stderr :: "stderr_line list"

text \<open>
  \<open>listUploadsForBuckets\<close>. One worker per bucket sends its result on the channel; the
  workers run concurrently, so the order of arrival is any permutation of the buckets:
  \<open>arrival\<close> is the list of buckets in that order. The channel is closed once every
  worker has returned; a worker that never returns leaves the whole call without a result.
\<close>

definition listUploadsForBuckets :: "nat \<Rightarrow> (string \<Rightarrow> error + upload_client) \<Rightarrow> S3Bucket list
    \<Rightarrow> ListOptions \<Rightarrow> (panic + list_result) option" where
  "listUploadsForBuckets fuel regional arrival opts =
     (case sequence (map (\<lambda>b. listUploadsForBucket fuel regional b opts) arrival) of
        None \<Rightarrow> None
      | Some results \<Rightarrow>
          (case collectResults results [] [] of
             (allUploads, errors) \<Rightarrow>
               (case (if Offset opts > 0 \<or> MaxResults opts > 0
                      then applyPagination allUploads opts else Inr allUploads) of
                  Inl p \<Rightarrow> Some (Inl p)
                | Inr allUploads' \<Rightarrow>
                    if length errors > 0
                    then Some (Inr \<lparr> lr_uploads = allUploads',
                                     lr_error = Some (ListFailed (int (length errors))),
                                     lr_stderr = logErrors errors \<rparr>)
                    else Some (Inr \<lparr> lr_uploads = allUploads', lr_error = None, lr_stderr = [] \<rparr>))))"

text \<open>
  \<open>ListUploads\<close>. The bucket service is an interface: \<open>getBucketRegion\<close> and
  \<open>listBuckets\<close> are its two methods as the call sees them.
\<close>

definition ListUploads :: "nat \<Rightarrow> (string \<Rightarrow> error + upload_client) \<Rightarrow> (string \<Rightarrow> error + string)
    \<Rightarrow> (error + S3Bucket list) \<Rightarrow> (S3Bucket list \<Rightarrow> S3Bucket list) \<Rightarrow> ListOptions
    \<Rightarrow> (panic + list_result) option" where
  "ListUploads fuel regional getBucketRegion listBuckets schedule opts =
     (case ListOptions_Validate opts of
        Some err \<Rightarrow>
          Some (Inr \<lparr> lr_uploads = [], lr_error = Some (Wrap ''invalid list options'' err),
                      lr_stderr = [] \<rparr>)
      | None \<Rightarrow>
          if lo_BucketName opts \<noteq> [] then
            (case getBucketRegion (lo_BucketName opts) of
               Inl err \<Rightarrow>
                 Some (Inr \<lparr> lr_uploads = [],
                             lr_error = Some (Wrap (''failed to get region for bucket '' @ lo_BucketName opts) err),
                             lr_stderr = [] \<rparr>)
             | Inr region \<Rightarrow>
                 (case listUploadsForBucket fuel regional
                         \<lparr> Name = lo_BucketName opts, b_Region = region, b_Uploads = [] \<rparr> opts of
                    None \<Rightarrow> None
                  | Some (Inl err) \<Rightarrow> Some (Inr \<lparr> lr_uploads = [], lr_error = Some err, lr_stderr = [] \<rparr>)
                  | Some (Inr uploads) \<Rightarrow>
                      Some (Inr \<lparr> lr_uploads = uploads, lr_error = None, lr_stderr = [] \<rparr>)))
          else
            (case listBuckets of
               Inl err \<Rightarrow>
                 Some (Inr \<lparr> lr_uploads = [], lr_error = Some (Wrap ''failed to list buckets'' err),
                             lr_stderr = [] \<rparr>)
             | Inr buckets \<Rightarrow>
                 let buckets' = (if lo_Region opts \<noteq> []
                                 then filter (\<lambda>bucket. b_Region bucket = lo_Region opts) buckets
                                 else buckets)
                 in listUploadsForBuckets fuel regional (schedule buckets') opts))"

text \<open>
  The records and the errors that the collection loop receives, and what one bucket's
  listing contributes to them.
\<close>

definition successes :: "(error + MultipartUpload list) list \<Rightarrow> MultipartUpload list" where
  "successes rs = concat (map (\<lambda>r. case r of Inl e \<Rightarrow> [] | Inr ups \<Rightarrow> ups) rs)"

definition failures :: "(error + MultipartUpload list) list \<Rightarrow> error list" where
  "failures rs = concat (map (\<lambda>r. case r of Inl e \<Rightarrow> [e] | Inr ups \<Rightarrow> []) rs)"



section \<open>S3Client: retry with exponential backoff (package aws)\<close>

text \<open>
  A \<open>float64\<close> is modelled by the rational number it denotes. An integer of absolute
  value at most \<open>2^53\<close> is a \<open>float64\<close>, and \<open>time.Duration(x)\<close> truncates towards
  zero.
\<close>

definition truncRat :: "rat \<Rightarrow> int" where
  "truncRat x = (if 0 \<le> x then \<lfloor>x\<rfloor> else \<lceil>x\<rceil>)"

definition exactFloat :: "rat \<Rightarrow> bool" where
  "exactFloat x = (of_int \<lfloor>x\<rfloor> = x \<and> \<bar>x\<bar> \<le> 9007199254740992)"

record RetryConfig =
  MaxRetries :: int
  BaseDelay :: int
  MaxDelay :: int
  BackoffFactor :: rat

definition DefaultRetryConfig :: RetryConfig where
  "DefaultRetryConfig =
     \<lparr> MaxRetries = 3, BaseDelay = 100 * Millisecond, MaxDelay = 30 * Second, BackoffFactor = 2 \<rparr>"

text \<open>The loop of \<open>containsSubstring\<close>: \<open>i\<close> runs from 0 to \<open>len(s) - len(substr)\<close>.\<close>

definition containsSubstring :: "string \<Rightarrow> string \<Rightarrow> bool" where
  "containsSubstring s substr =
     list_ex (\<lambda>i. take (length substr) (drop i s) = substr)
       [0 ..< nat (int (length s) - int (length substr) + 1)]"

definition contains :: "string \<Rightarrow> string \<Rightarrow> bool" where
  "contains s substr =
     (length s \<ge> length substr \<and>
      (s = substr \<or>
       (length s > length substr \<and>
        (take (length substr) s = substr \<or>
         drop (length s - length substr) s = substr \<or>
         containsSubstring s substr))))"

definition retryableErrors :: "string list" where
  "retryableErrors = [''RequestTimeout'', ''ServiceUnavailable'', ''InternalError'', ''SlowDown'',
     ''TooManyRequests'', ''RequestTimeTooSkewed'']"

definition isRetryableError :: "sdk_error option \<Rightarrow> bool" where
  "isRetryableError err =
     (case err of
        None \<Rightarrow> False
      | Some e \<Rightarrow>
          (case asNetError e of
             Some (timeout, temporary) \<Rightarrow> timeout \<or> temporary
           | None \<Rightarrow>
               if asNoSuchBucket e then False
               else list_ex (\<lambda>retryableErr. contains (errString e) retryableErr) retryableErrors))"

text \<open>
  \<open>calculateBackoffDelay\<close>. The delay is computed in \<open>float64\<close> and converted to
  \<open>int64\<close>. When the base delay, the power and their product are integers of absolute
  value at most \<open>2^53\<close>, the computation is exact and the model computes it. Otherwise
  the product is rounded, or it exceeds \<open>int64\<close> and the conversion is left to the
  implementation (the default configuration reaches this at attempt 37, where the
  conversion can give a negative delay): the converted value is then the parameter
  \<open>fdelay\<close>, about which nothing is assumed but that it is an \<open>int64\<close>.
\<close>

definition calculateBackoffDelay :: "(RetryConfig \<Rightarrow> int \<Rightarrow> int) \<Rightarrow> RetryConfig \<Rightarrow> int \<Rightarrow> int" where
  "calculateBackoffDelay fdelay cfg attempt =
     (let power = BackoffFactor cfg ^ nat attempt;
          product = of_int (BaseDelay cfg) * power;
          delay = (if 0 \<le> attempt \<and> exactFloat (of_int (BaseDelay cfg)) \<and> exactFloat power
                      \<and> exactFloat product
                   then truncRat product
                   else wrap64 (fdelay cfg attempt))
      in if delay > MaxDelay cfg then MaxDelay cfg else delay)"

text \<open>
  What \<open>executeWithRetry\<close> meets outside: the answer of the rate limiter's \<open>Wait\<close>
  before attempt \<open>i\<close>, the error of the \<open>i\<close>-th call of the operation (\<open>None\<close> is
  nil), whether the context is done before the sleep after attempt \<open>i\<close> ends, and the
  floating-point unit behind \<open>calculateBackoffDelay\<close>.
  The run records the error returned, the number of calls of the operation, and the
  sleeps completed, in order.
\<close>

record retry_env =
  limiterWait :: "nat \<Rightarrow> error option"
  operation :: "nat \<Rightarrow> sdk_error option"
  ctxDone :: "nat \<Rightarrow> bool"
  floatDelay :: "RetryConfig \<Rightarrow> int \<Rightarrow> int"

record retry_run =
  rr_error :: "error option"
  rr_calls :: nat
  rr_sleeps :: "int list"

function retryLoop :: "RetryConfig \<Rightarrow> retry_env \<Rightarrow> int \<Rightarrow> sdk_error option \<Rightarrow> nat \<Rightarrow> int list
    \<Rightarrow> retry_run" where
  "retryLoop cfg env attempt lastErr calls sleeps =
     (if attempt \<le> MaxRetries cfg then
        (case limiterWait env (nat attempt) of
           Some err \<Rightarrow>
             \<lparr> rr_error = Some (Wrap ''rate limiter error'' err), rr_calls = calls, rr_sleeps = sleeps \<rparr>
         | None \<Rightarrow>
             (case operation env (nat attempt) of
                None \<Rightarrow> \<lparr> rr_error = None, rr_calls = calls + 1, rr_sleeps = sleeps \<rparr>
              | Some err \<Rightarrow>
                  if attempt = MaxRetries cfg then
                    \<lparr> rr_error = Some (RetriesExhausted (MaxRetries cfg) (Some (Sdk err))),
                      rr_calls = calls + 1, rr_sleeps = sleeps \<rparr>
                  else if \<not> isRetryableError (Some err) then
                    \<lparr> rr_error = Some (Sdk err), rr_calls = calls + 1, rr_sleeps = sleeps \<rparr>
                  else if ctxDone env (nat attempt) then
                    \<lparr> rr_error = Some ContextError, rr_calls = calls + 1, rr_sleeps = sleeps \<rparr>
                  else retryLoop cfg env (attempt + 1) (Some err) (calls + 1)
                         (sleeps @ [calculateBackoffDelay (floatDelay env) cfg attempt])))
      else \<lparr> rr_error = Some (RetriesExhausted (MaxRetries cfg) (map_option Sdk lastErr)),
             rr_calls = calls, rr_sleeps = sleeps \<rparr>)"
  by pat_completeness auto
termination
  by (relation "measure (\<lambda>(cfg, env, attempt, lastErr, calls, sleeps). nat (MaxRetries cfg + 1 - attempt))")
     auto

declare retryLoop.simps [simp del]

definition executeWithRetry :: "RetryConfig \<Rightarrow> retry_env \<Rightarrow> retry_run" where
  "executeWithRetry cfg env = retryLoop cfg env 0 None 0 []"

section \<open>BucketService: the region cache\<close>

record BucketService =
  regionCache :: "string \<rightharpoonup> string"
  cacheTime :: "string \<rightharpoonup> int"
  cacheExpiry :: int

definition NewBucketService :: BucketService where
  "NewBucketService = \<lparr> regionCache = Map.empty, cacheTime = Map.empty, cacheExpiry = 1 * Hour \<rparr>"

text \<open>
  \<open>GetBucketRegion\<close>. \<open>location\<close> is the remote \<open>GetBucketLocation\<close> (its answer is
  the location constraint), \<open>now\<close> the clock when the cache is looked up and \<open>stored\<close>
  the clock when the answer is stored. The call returns its result, the service after
  it, and the buckets for which it called the remote.
\<close>

record region_call =
  gr_result :: "error + string"
  gr_service :: BucketService
  gr_remoteCalls :: "string list"

definition cacheHit :: "BucketService \<Rightarrow> int \<Rightarrow> string \<Rightarrow> string option" where
  "cacheHit s now bucketName =
     (case regionCache s bucketName of
        Some cachedRegion \<Rightarrow>
          (case cacheTime s bucketName of
             Some t \<Rightarrow> if Since now t < cacheExpiry s then Some cachedRegion else None
           | None \<Rightarrow> None)
      | None \<Rightarrow> None)"

definition GetBucketRegion :: "BucketService \<Rightarrow> (string \<Rightarrow> error + string) \<Rightarrow> int \<Rightarrow> int \<Rightarrow> string
    \<Rightarrow> region_call" where
  "GetBucketRegion s location now stored bucketName =
     (case cacheHit s now bucketName of
        Some cachedRegion \<Rightarrow>
          \<lparr> gr_result = Inr cachedRegion, gr_service = s, gr_remoteCalls = [] \<rparr>
      | None \<Rightarrow>
          (case location bucketName of
             Inl err \<Rightarrow>
               \<lparr> gr_result = Inl (Wrap (''failed to get bucket location for '' @ bucketName) err),
                 gr_service = s, gr_remoteCalls = [bucketName] \<rparr>
           | Inr locationConstraint \<Rightarrow>
               let region = (if locationConstraint \<noteq> [] then locationConstraint else ''us-east-1'')
               in \<lparr> gr_result = Inr region,
                    gr_service = s \<lparr> regionCache := (regionCache s)(bucketName \<mapsto> region),
                                      cacheTime := (cacheTime s)(bucketName \<mapsto> stored) \<rparr>,
                    gr_remoteCalls = [bucketName] \<rparr>))"

section \<open>SizeService: sizes of a batch\<close>

text \<open>
  \<open>calculateUploadSizes\<close>. \<open>GetUploadSize\<close> is the method of the upload service the
  size service holds; a worker sends the record with its size, or the error and the
  bucket name. \<open>arrival\<close> is the list of uploads in the order in which the workers'
  results arrive on the channel.
\<close>

record uploadResult =
  ur_upload :: MultipartUpload
  ur_err :: "error option"
  ur_inaccessibleBucket :: string

definition sizeWorker :: "(MultipartUpload \<Rightarrow> error + int) \<Rightarrow> MultipartUpload \<Rightarrow> uploadResult" where
  "sizeWorker GetUploadSize u =
     (case GetUploadSize u of
        Inl err \<Rightarrow> \<lparr> ur_upload = u, ur_err = Some err, ur_inaccessibleBucket = Bucket u \<rparr>
      | Inr sz \<Rightarrow> \<lparr> ur_upload = u \<lparr> Size := sz \<rparr>, ur_err = None, ur_inaccessibleBucket = [] \<rparr>)"

fun collectSizes :: "uploadResult list \<Rightarrow> MultipartUpload list \<Rightarrow> string list \<Rightarrow> error list
    \<Rightarrow> (string \<Rightarrow> bool) \<Rightarrow> MultipartUpload list \<times> string list \<times> error list" where
  "collectSizes [] uploadsWithSizes inaccessibleBuckets errors bucketErrorMap =
     (uploadsWithSizes, inaccessibleBuckets, errors)"
| "collectSizes (result # rest) uploadsWithSizes inaccessibleBuckets errors bucketErrorMap =
     (case ur_err result of
        Some err \<Rightarrow>
          if ur_inaccessibleBucket result \<noteq> [] \<and> \<not> bucketErrorMap (ur_inaccessibleBucket result)
          then collectSizes rest uploadsWithSizes
                 (inaccessibleBuckets @ [ur_inaccessibleBucket result]) (errors @ [err])
                 (bucketErrorMap (ur_inaccessibleBucket result := True))
          else collectSizes rest uploadsWithSizes inaccessibleBuckets (errors @ [err]) bucketErrorMap
      | None \<Rightarrow>
          collectSizes rest (uploadsWithSizes @ [ur_upload result]) inaccessibleBuckets errors
            bucketErrorMap)"

definition calculateUploadSizes :: "(MultipartUpload \<Rightarrow> error + int) \<Rightarrow> MultipartUpload list
    \<Rightarrow> MultipartUpload list \<times> string list \<times> error option" where
  "calculateUploadSizes GetUploadSize arrival =
     (if length arrival = 0 then (arrival, [], None)
      else
        (case collectSizes (map (sizeWorker GetUploadSize) arrival) [] [] [] (\<lambda>b. False) of
           (uploadsWithSizes, inaccessibleBuckets, errors) \<Rightarrow>
             (uploadsWithSizes, inaccessibleBuckets, None)))"

section \<open>DryRunService: simulated deletion\<close>

text \<open>
  \<open>filterUploadsForDeletion\<close>, the same loop in the upload service and in the dry-run
  service; \<open>now\<close> is the clock that \<open>time.Since\<close> reads.
\<close>

fun filterUploadsForDeletion :: "int \<Rightarrow> MultipartUpload list \<Rightarrow> DeleteOptions \<Rightarrow> MultipartUpload list" where
  "filterUploadsForDeletion now [] opts = []"
| "filterUploadsForDeletion now (upload # rest) opts =
     (if do_BucketName opts \<noteq> [] \<and> Bucket upload \<noteq> do_BucketName opts
      then filterUploadsForDeletion now rest opts
      else if (case OlderThan opts of
                 Some olderThan \<Rightarrow> Since now (Initiated upload) < olderThan
               | None \<Rightarrow> False)
      then filterUploadsForDeletion now rest opts
      else if (case SmallerThan opts of Some smallerThan \<Rightarrow> Size upload \<ge> smallerThan | None \<Rightarrow> False)
      then filterUploadsForDeletion now rest opts
      else if (case LargerThan opts of Some largerThan \<Rightarrow> Size upload \<le> largerThan | None \<Rightarrow> False)
      then filterUploadsForDeletion now rest opts
      else upload # filterUploadsForDeletion now rest opts)"

text \<open>The sum of the sizes, in \<open>int64\<close>.\<close>

fun calculateTotalSize :: "MultipartUpload list \<Rightarrow> int \<Rightarrow> int" where
  "calculateTotalSize [] tot = tot"
| "calculateTotalSize (upload # rest) tot = calculateTotalSize rest (wrap64 (tot + Size upload))"

record DryRunResult =
  TotalUploads :: int
  TotalSize :: int
  EstimatedSavings :: rat
  Currency :: string
  UploadsByBucket :: "string \<rightharpoonup> int"
  SizeByBucket :: "string \<rightharpoonup> int"
  SavingsByBucket :: "string \<rightharpoonup> rat"
  UploadsByRegion :: "string \<rightharpoonup> int"
  SizeByRegion :: "string \<rightharpoonup> int"
  SavingsByRegion :: "string \<rightharpoonup> rat"
  UploadsByStorageClass :: "string \<rightharpoonup> int"
  SizeByStorageClass :: "string \<rightharpoonup> int"
  SavingsByStorageClass :: "string \<rightharpoonup> rat"
  dr_Uploads :: "MultipartUpload list"
  GeneratedAt :: int
  Command :: string
  Filters :: string

text \<open>
  \<open>m[k] += d\<close> on a Go map: an absent key counts as 0. \<open>groupSum\<close> is one of the
  six running sums of \<open>calculateBreakdowns\<close>; \<open>groupSavings\<close> is one of the three
  loops of \<open>calculateCostBreakdowns\<close>, which asks the cost calculator once for every
  group and leaves a group out when the calculator fails.
\<close>

definition addTo :: "(string \<rightharpoonup> int) \<Rightarrow> string \<Rightarrow> int \<Rightarrow> (string \<rightharpoonup> int)" where
  "addTo m k d = m(k \<mapsto> wrap64 ((case m k of None \<Rightarrow> 0 | Some v \<Rightarrow> v) + d))"

fun groupSum :: "(MultipartUpload \<Rightarrow> string) \<Rightarrow> (MultipartUpload \<Rightarrow> int) \<Rightarrow> MultipartUpload list
    \<Rightarrow> (string \<rightharpoonup> int) \<Rightarrow> (string \<rightharpoonup> int)" where
  "groupSum key amount [] m = m"
| "groupSum key amount (upload # rest) m = groupSum key amount rest (addTo m (key upload) (amount upload))"

definition groupSavings :: "(MultipartUpload list \<Rightarrow> error + rat) \<Rightarrow> (MultipartUpload \<Rightarrow> string)
    \<Rightarrow> MultipartUpload list \<Rightarrow> (string \<rightharpoonup> rat)" where
  "groupSavings EstimateSavings key uploads =
     (\<lambda>k. if k \<in> set (map key uploads)
          then (case EstimateSavings (filter (\<lambda>upload. key upload = k) uploads) of
                  Inr savings \<Rightarrow> Some savings
                | Inl err \<Rightarrow> None)
          else None)"

definition Join :: "string list \<Rightarrow> string \<Rightarrow> string" where
  "Join parts sep = (case parts of [] \<Rightarrow> [] | p # ps \<Rightarrow> p @ concat (map (\<lambda>q. sep @ q) ps))"

text \<open>
  \<open>formatDuration\<close> and \<open>formatBytes\<close> print quotients of floating-point numbers;
  the two are parameters of the strings built from them.
\<close>

record formatters =
  formatDuration :: "int \<Rightarrow> string"
  formatBytes :: "int \<Rightarrow> string"

definition buildCommandString :: "formatters \<Rightarrow> DeleteOptions \<Rightarrow> string" where
  "buildCommandString f opts =
     Join ([''delete'']
           @ (if do_BucketName opts \<noteq> [] then [''-b '' @ do_BucketName opts] else [])
           @ (case OlderThan opts of Some d \<Rightarrow> [''--older-than '' @ formatDuration f d] | None \<Rightarrow> [])
           @ (case SmallerThan opts of Some n \<Rightarrow> [''--smaller-than '' @ formatBytes f n] | None \<Rightarrow> [])
           @ (case LargerThan opts of Some n \<Rightarrow> [''--larger-than '' @ formatBytes f n] | None \<Rightarrow> [])
           @ (if Force opts then [''--force''] else [])
           @ (if Quiet opts then [''--quiet''] else [])) '' ''"

definition buildFilterString :: "formatters \<Rightarrow> DeleteOptions \<Rightarrow> string" where
  "buildFilterString f opts =
     Join ((case OlderThan opts of Some d \<Rightarrow> [''age>'' @ formatDuration f d] | None \<Rightarrow> [])
           @ (case SmallerThan opts of Some n \<Rightarrow> [''size<'' @ formatBytes f n] | None \<Rightarrow> [])
           @ (case LargerThan opts of Some n \<Rightarrow> [''size>'' @ formatBytes f n] | None \<Rightarrow> [])
           @ (if do_BucketName opts \<noteq> [] then [''bucket='' @ do_BucketName opts] else [])) '',''"

text \<open>
  \<open>SimulateDeletion\<close>. \<open>EstimateSavings\<close> is the cost calculator the service holds;
  the service calls no other collaborator.
\<close>

definition SimulateDeletion :: "formatters \<Rightarrow> (MultipartUpload list \<Rightarrow> error + rat) \<Rightarrow> int
    \<Rightarrow> MultipartUpload list \<Rightarrow> DeleteOptions \<Rightarrow> error + DryRunResult" where
  "SimulateDeletion f EstimateSavings now uploads opts =
     (case DeleteOptions_Validate opts of
        Some err \<Rightarrow> Inl (Wrap ''invalid delete options'' err)
      | None \<Rightarrow>
          let filteredUploads = filterUploadsForDeletion now uploads opts;
              estimatedSavings = (case EstimateSavings filteredUploads of
                                    Inl err \<Rightarrow> 0
                                  | Inr savings \<Rightarrow> savings)
          in Inr \<lparr> TotalUploads = int (length filteredUploads),
                   TotalSize = calculateTotalSize filteredUploads 0,
                   EstimatedSavings = estimatedSavings,
                   Currency = ''USD'',
                   UploadsByBucket = groupSum Bucket (\<lambda>upload. 1) filteredUploads Map.empty,
                   SizeByBucket = groupSum Bucket Size filteredUploads Map.empty,
                   SavingsByBucket = groupSavings EstimateSavings Bucket filteredUploads,
                   UploadsByRegion = groupSum Region (\<lambda>upload. 1) filteredUploads Map.empty,
                   SizeByRegion = groupSum Region Size filteredUploads Map.empty,
                   SavingsByRegion = groupSavings EstimateSavings Region filteredUploads,
                   UploadsByStorageClass = groupSum StorageClass (\<lambda>upload. 1) filteredUploads Map.empty,
                   SizeByStorageClass = groupSum StorageClass Size filteredUploads Map.empty,
                   SavingsByStorageClass = groupSavings EstimateSavings StorageClass filteredUploads,
                   dr_Uploads = filteredUploads,
                   GeneratedAt = now,
                   Command = buildCommandString f opts,
                   Filters = buildFilterString f opts \<rparr>)"

section \<open>UploadService: deletion\<close>

record AbortMultipartUploadInput =
  ab_Bucket :: string
  ab_Key :: string
  ab_UploadId :: string

definition abortInput :: "MultipartUpload \<Rightarrow> AbortMultipartUploadInput" where
  "abortInput upload = \<lparr> ab_Bucket = Bucket upload, ab_Key = Key upload, ab_UploadId = UploadID upload \<rparr>"

text \<open>
  \<open>DeleteUpload\<close>: the error it returns and the requests it sends to the remote
  \<open>AbortMultipartUpload\<close>, whose answer is \<open>abort\<close>.
\<close>

definition DeleteUpload :: "(AbortMultipartUploadInput \<Rightarrow> error option) \<Rightarrow> MultipartUpload
    \<Rightarrow> error option \<times> AbortMultipartUploadInput list" where
  "DeleteUpload abort upload =
     (case MultipartUpload_Validate upload of
        Some err \<Rightarrow> (Some (Wrap ''invalid upload'' err), [])
      | None \<Rightarrow>
          (case abort (abortInput upload) of
             Some err \<Rightarrow>
               (Some (Wrap (''failed to abort multipart upload '' @ UploadID upload
                             @ '' in bucket '' @ Bucket upload) err),
                [abortInput upload])
           | None \<Rightarrow> (None, [abortInput upload])))"

record DeletionProgress =
  dp_TotalUploads :: int
  dp_ProcessedUploads :: int
  dp_SuccessfulDeletes :: int
  dp_FailedDeletes :: int

record DeletionResult =
  res_TotalProcessed :: int
  res_SuccessfulDeletes :: int
  res_FailedDeletes :: int
  res_StorageFreed :: int
  res_Errors :: "(MultipartUpload \<times> error) list"

text \<open>
  What the service prints or hands to its reporter, by the function that does it and
  the data that function is given.
\<close>

datatype report =
    PromptForConfirmation "MultipartUpload list" int
  | ReportDryRunResults "MultipartUpload list" int
  | ReportDryRunResultsFromService DryRunResult
  | ReportProgress DeletionProgress
  | ReportCompletion DeletionResult

text \<open>
  The state the deletion workers share: the three atomic counters, the list of errors,
  the storage freed, and the requests sent to the remote so far.
\<close>

record deletion_state =
  processedCount :: int
  successCount :: int
  failedCount :: int
  errors :: "(MultipartUpload \<times> error) list"
  totalStorageFreed :: int
  abortCalls :: "AbortMultipartUploadInput list"

fun runWorkers :: "(AbortMultipartUploadInput \<Rightarrow> error option) \<Rightarrow> MultipartUpload list
    \<Rightarrow> deletion_state \<Rightarrow> deletion_state" where
  "runWorkers abort [] st = st"
| "runWorkers abort (u # rest) st =
     (case DeleteUpload abort u of
        (Some err, calls) \<Rightarrow>
          runWorkers abort rest
            (st \<lparr> processedCount := processedCount st + 1,
                  failedCount := failedCount st + 1,
                  errors := errors st @ [(u, err)],
                  abortCalls := abortCalls st @ calls \<rparr>)
      | (None, calls) \<Rightarrow>
          runWorkers abort rest
            (st \<lparr> processedCount := processedCount st + 1,
                  successCount := successCount st + 1,
                  totalStorageFreed := wrap64 (totalStorageFreed st + Size u),
                  abortCalls := abortCalls st @ calls \<rparr>))"

record delete_run =
  dl_error :: "error option"
  dl_aborts :: "AbortMultipartUploadInput list"
  dl_output :: "report list"

text \<open>
  \<open>deleteUploadsWithProgress\<close>. One worker per upload calls \<open>DeleteUpload\<close>; the
  workers run concurrently and \<open>arrival\<close> is the list of uploads in the order in which
  they finish. The reports of the one-second ticker, whose number depends on the time
  the remote takes, are left out; the final report and the completion report are kept.
\<close>

definition deleteUploadsWithProgress :: "(AbortMultipartUploadInput \<Rightarrow> error option)
    \<Rightarrow> MultipartUpload list \<Rightarrow> delete_run" where
  "deleteUploadsWithProgress abort arrival =
     (if length arrival = 0 then \<lparr> dl_error = None, dl_aborts = [], dl_output = [] \<rparr>
      else
        let st = runWorkers abort arrival
                   \<lparr> processedCount = 0, successCount = 0, failedCount = 0, errors = [],
                     totalStorageFreed = 0, abortCalls = [] \<rparr>;
            progress = \<lparr> dp_TotalUploads = int (length arrival),
                         dp_ProcessedUploads = processedCount st,
                         dp_SuccessfulDeletes = successCount st,
                         dp_FailedDeletes = failedCount st \<rparr>;
            result = \<lparr> res_TotalProcessed = int (length arrival),
                       res_SuccessfulDeletes = successCount st,
                       res_FailedDeletes = failedCount st,
                       res_StorageFreed = totalStorageFreed st,
                       res_Errors = errors st \<rparr>
        in \<lparr> dl_error = (if length (errors st) > 0
                          then Some (DeleteFailed (int (length (errors st))) (int (length arrival)))
                          else None),
             dl_aborts = abortCalls st,
             dl_output = [ReportProgress progress, ReportCompletion result] \<rparr>)"

text \<open>\<open>bufio.Reader.ReadString('\n')\<close> on a reader that holds \<open>input\<close>.\<close>

definition ReadString :: "string \<Rightarrow> error + string" where
  "ReadString input =
     (if CHR 0x0A \<in> set input
      then Inr (takeWhile (\<lambda>c. c \<noteq> CHR 0x0A) input @ [CHR 0x0A])
      else Inl EOF)"

definition promptForConfirmation :: "'a caselib_scheme \<Rightarrow> string \<Rightarrow> error + bool" where
  "promptForConfirmation lib input =
     (case ReadString input of
        Inl err \<Rightarrow> Inl (Wrap ''failed to read user input'' err)
      | Inr response \<Rightarrow>
          let response' = TrimSpace (ToLower lib response)
          in Inr (response' = ''y'' \<or> response' = ''yes''))"

text \<open>
  What \<open>DeleteUploads\<close> meets outside: the clock its filter reads and the clock the
  dry-run service reads, the dry-run service (given by its cost calculator; \<open>None\<close> is
  a nil service), the content of the confirmation reader, the case tables that
  \<open>strings.ToLower\<close> reads, the remote, and the order in which the deletion workers
  finish.
\<close>

record delete_env =
  clock :: int
  dryRunClock :: int
  dryRunService :: "(MultipartUpload list \<Rightarrow> error + rat) option"
  fmt :: formatters
  confirmation :: string
  caseTables :: caselib
  abortUpload :: "AbortMultipartUploadInput \<Rightarrow> error option"
  schedule :: "MultipartUpload list \<Rightarrow> MultipartUpload list"

definition DeleteUploads :: "delete_env \<Rightarrow> MultipartUpload list \<Rightarrow> DeleteOptions \<Rightarrow> delete_run" where
  "DeleteUploads env uploads opts =
     (case DeleteOptions_Validate opts of
        Some err \<Rightarrow>
          \<lparr> dl_error = Some (Wrap ''invalid delete options'' err), dl_aborts = [], dl_output = [] \<rparr>
      | None \<Rightarrow>
          let filteredUploads = filterUploadsForDeletion (clock env) uploads opts in
          if length filteredUploads = 0
          then \<lparr> dl_error = Some NoUploadsMatch, dl_aborts = [], dl_output = [] \<rparr>
          else
            let totalSize = calculateTotalSize filteredUploads 0 in
            if DryRun opts then
              (case dryRunService env of
                 Some EstimateSavings \<Rightarrow>
                   (case SimulateDeletion (fmt env) EstimateSavings (dryRunClock env) filteredUploads opts of
                      Inl err \<Rightarrow>
                        \<lparr> dl_error = Some (Wrap ''dry-run simulation failed'' err), dl_aborts = [],
                          dl_output = [] \<rparr>
                    | Inr result \<Rightarrow>
                        \<lparr> dl_error = None, dl_aborts = [],
                          dl_output = [ReportDryRunResultsFromService result] \<rparr>)
               | None \<Rightarrow>
                   \<lparr> dl_error = None, dl_aborts = [],
                     dl_output = [ReportDryRunResults filteredUploads totalSize] \<rparr>)
            else if \<not> Force opts then
              (case promptForConfirmation (caseTables env) (confirmation env) of
                 Inl err \<Rightarrow>
                   \<lparr> dl_error = Some (Wrap ''failed to get confirmation'' err), dl_aborts = [],
                     dl_output = [PromptForConfirmation filteredUploads totalSize] \<rparr>
               | Inr confirmed \<Rightarrow>
                   if \<not> confirmed
                   then \<lparr> dl_error = Some CancelledByUser, dl_aborts = [],
                          dl_output = [PromptForConfirmation filteredUploads totalSize] \<rparr>
                   else
                     let run = deleteUploadsWithProgress (abortUpload env) (schedule env filteredUploads)
                     in run \<lparr> dl_output := PromptForConfirmation filteredUploads totalSize # dl_output run \<rparr>)
            else deleteUploadsWithProgress (abortUpload env) (schedule env filteredUploads))"

section \<open>Filter engine (package filter)\<close>

subsection \<open>Numbers\<close>

definition isDigit :: "char \<Rightarrow> bool" where
  "isDigit c = ((48::nat) \<le> of_char c \<and> (of_char c :: nat) \<le> 57)"

fun digitsValue :: "string \<Rightarrow> int \<Rightarrow> int" where
  "digitsValue [] n = n"
| "digitsValue (c # cs) n = digitsValue cs (10 * n + ((of_char c :: int) - 48))"

text \<open>
  \<open>strconv.ParseInt(s, 10, 64)\<close>: an optional sign, then decimal digits; a value
  outside \<open>int64\<close> is an error.
\<close>

definition ParseInt :: "string \<Rightarrow> int option" where
  "ParseInt s =
     (let neg = (s \<noteq> [] \<and> hd s = CHR ''-'');
          ds = (if s \<noteq> [] \<and> (hd s = CHR ''+'' \<or> hd s = CHR ''-'') then tl s else s)
      in if ds = [] \<or> \<not> list_all isDigit ds then None
         else
           let v = (if neg then - digitsValue ds 0 else digitsValue ds 0)
           in if v < - 9223372036854775808 \<or> v > 9223372036854775807 then None else Some v)"

text \<open>
  Floating point. A finite \<open>float64\<close> is modelled by the rational it denotes. The
  library and the hardware are parameters wherever their answer is not determined here:
  \<open>parseFloat\<close> is \<open>strconv.ParseFloat\<close> (\<open>None\<close> is an error), \<open>roundFloat\<close>
  rounds an exact product to a \<open>float64\<close>, and \<open>convertOutOfRange\<close> is the
  conversion to \<open>int64\<close> of a value that \<open>int64\<close> cannot hold, which Go leaves to the
  implementation. Where the answer is determined it is computed: a string of decimal
  digits below \<open>2^53\<close> parses to that integer, a product that is an integer of absolute
  value at most \<open>2^53\<close> is exact, and the conversion of a value in range truncates.
\<close>

datatype float64 = Finite rat | PosInf | NegInf | NaN

record golib = caselib +
  parseFloat :: "string \<Rightarrow> float64 option"
  roundFloat :: "rat \<Rightarrow> float64"
  convertOutOfRange :: "float64 \<Rightarrow> int"

definition ParseFloat :: "golib \<Rightarrow> string \<Rightarrow> float64 option" where
  "ParseFloat lib s =
     (if s \<noteq> [] \<and> list_all isDigit s \<and> digitsValue s 0 < 9007199254740992
      then Some (Finite (of_int (digitsValue s 0)))
      else parseFloat lib s)"

definition isNegative :: "float64 \<Rightarrow> bool" where
  "isNegative x = (case x of Finite q \<Rightarrow> q < 0 | NegInf \<Rightarrow> True | _ \<Rightarrow> False)"

definition mulFloat :: "golib \<Rightarrow> float64 \<Rightarrow> int \<Rightarrow> float64" where
  "mulFloat lib x k =
     (case x of
        Finite q \<Rightarrow>
          if of_int \<lfloor>q * of_int k\<rfloor> = q * of_int k \<and> \<bar>q * of_int k\<bar> \<le> 9007199254740992
          then Finite (q * of_int k)
          else roundFloat lib (q * of_int k)
      | _ \<Rightarrow> x)"

definition toInt64 :: "golib \<Rightarrow> float64 \<Rightarrow> int" where
  "toInt64 lib x =
     (case x of
        Finite q \<Rightarrow>
          if - 9223372036854775808 \<le> truncRat q \<and> truncRat q \<le> 9223372036854775807
          then truncRat q
          else wrap64 (convertOutOfRange lib x)
      | _ \<Rightarrow> wrap64 (convertOutOfRange lib x))"

subsection \<open>Parsing\<close>

record AgeFilter =
  af_Operator :: string
  af_Value :: string

record SizeFilter =
  sf_Operator :: string
  sf_Value :: string

record StringFilter =
  st_Operator :: string
  st_Value :: string

record Filter =
  Age :: "AgeFilter option"
  f_Size :: "SizeFilter option"
  f_StorageClass :: "StringFilter option"
  f_Region :: "StringFilter option"
  f_Bucket :: "StringFilter option"

definition emptyFilter :: Filter where
  "emptyFilter = \<lparr> Age = None, f_Size = None, f_StorageClass = None, f_Region = None,
     f_Bucket = None \<rparr>"

definition quoted :: "string \<Rightarrow> string" where
  "quoted s = CHR 0x27 # s @ [CHR 0x27]"

definition parseAgeDuration :: "golib \<Rightarrow> string \<Rightarrow> error + int" where
  "parseAgeDuration lib value =
     (if length value < 2
      then Inl (Errorf (''invalid age format '' @ quoted value))
      else
        let numStr = butlast value;
            unit = ToLower lib [last value]
        in case ParseFloat lib numStr of
             None \<Rightarrow> Inl (Wrap (''invalid number in age '' @ quoted value) NumError)
           | Some num \<Rightarrow>
               if isNegative num then Inl (Errorf (''age cannot be negative: '' @ value))
               else if unit = ''d'' then Inr (toInt64 lib (mulFloat lib num (24 * Hour)))
               else if unit = ''w'' then Inr (toInt64 lib (mulFloat lib num (7 * 24 * Hour)))
               else if unit = ''m'' then Inr (toInt64 lib (mulFloat lib num (30 * 24 * Hour)))
               else if unit = ''y'' then Inr (toInt64 lib (mulFloat lib num (365 * 24 * Hour)))
               else Inl (Errorf (''invalid age unit '' @ quoted unit)))"

text \<open>
  The loop of \<open>parseSizeBytes\<close> that looks, from the end, for the last digit or dot:
  the number is the text up to it and the unit the text after it; both are empty when
  there is none.
\<close>

definition isNumberChar :: "char \<Rightarrow> bool" where
  "isNumberChar c = (isDigit c \<or> c = CHR ''.'')"

definition splitNumber :: "string \<Rightarrow> string \<times> string" where
  "splitNumber value =
     (let suffix = takeWhile (\<lambda>c. \<not> isNumberChar c) (rev value)
      in if length suffix = length value then ([], [])
         else (take (length value - length suffix) value, rev suffix))"

definition parseSizeBytes :: "golib \<Rightarrow> string \<Rightarrow> error + int" where
  "parseSizeBytes lib value0 =
     (let value = ToUpper lib (TrimSpace value0) in
      if length value < 2
      then Inl (Errorf (''invalid size format '' @ quoted value))
      else
        case ParseInt value of
          Some num \<Rightarrow>
            if num < 0 then Inl (Errorf (''size cannot be negative: '' @ value)) else Inr num
        | None \<Rightarrow>
            (case splitNumber value of
               (numStr, unit) \<Rightarrow>
                 if numStr = [] then Inl (Errorf (''invalid size format '' @ quoted value))
                 else
                   case ParseFloat lib numStr of
                     None \<Rightarrow> Inl (Wrap (''invalid number in size '' @ quoted value) NumError)
                   | Some num \<Rightarrow>
                       if isNegative num then Inl (Errorf (''size cannot be negative: '' @ value))
                       else if unit = ''B'' \<or> unit = [] then Inr (toInt64 lib (mulFloat lib num 1))
                       else if unit = ''KB'' then Inr (toInt64 lib (mulFloat lib num 1024))
                       else if unit = ''MB'' then Inr (toInt64 lib (mulFloat lib num (1024 * 1024)))
                       else if unit = ''GB''
                         then Inr (toInt64 lib (mulFloat lib num (1024 * 1024 * 1024)))
                       else if unit = ''TB''
                         then Inr (toInt64 lib (mulFloat lib num (1024 * 1024 * 1024 * 1024)))
                       else Inl (Errorf (''invalid size unit '' @ quoted unit))))"

definition validateAgeOperator :: "string \<Rightarrow> error option" where
  "validateAgeOperator operator =
     (if operator \<in> set [''>'', ''<'', ''>='', ''<='', ''='', ''!=''] then None
      else Some (Errorf (''invalid operator '' @ quoted operator @ '' for age field'')))"

definition validateSizeOperator :: "string \<Rightarrow> error option" where
  "validateSizeOperator operator =
     (if operator \<in> set [''>'', ''<'', ''>='', ''<='', ''='', ''!=''] then None
      else Some (Errorf (''invalid operator '' @ quoted operator @ '' for size field'')))"

definition validateStringOperator :: "string \<Rightarrow> error option" where
  "validateStringOperator operator =
     (if operator \<in> set [''='', ''!=''] then None
      else Some (Errorf (''invalid operator '' @ quoted operator @ '' for string field'')))"

definition validateAgeValue :: "golib \<Rightarrow> string \<Rightarrow> error option" where
  "validateAgeValue lib value = (case parseAgeDuration lib value of Inl err \<Rightarrow> Some err | Inr d \<Rightarrow> None)"

definition validateSizeValue :: "golib \<Rightarrow> string \<Rightarrow> error option" where
  "validateSizeValue lib value = (case parseSizeBytes lib value of Inl err \<Rightarrow> Some err | Inr n \<Rightarrow> None)"

text \<open>
  The regular expression of \<open>parseCondition\<close>,
  \<^verbatim>\<open>^(\w+)\s*(>=|<=|!=|>|<|=)\s*(.+)$\<close>, matched the way Go's \<open>regexp\<close> does
  (the first alternative that leads to a match, the longest repetition that does):
  \<open>matchRest\<close> matches \<^verbatim>\<open>\s*(.+)$\<close> and returns the third group,
  \<open>tryOperators\<close> tries the alternatives in order, \<open>matchCondition\<close> returns the
  three groups. A dot matches every character but the line feed.
\<close>

definition isWordChar :: "char \<Rightarrow> bool" where
  "isWordChar c =
     (isDigit c \<or> ((65::nat) \<le> of_char c \<and> (of_char c :: nat) \<le> 90)
      \<or> ((97::nat) \<le> of_char c \<and> (of_char c :: nat) \<le> 122) \<or> c = CHR ''_'')"

definition isReSpace :: "char \<Rightarrow> bool" where
  "isReSpace c = (c = CHR '' '' \<or> c = CHR 0x09 \<or> c = CHR 0x0A \<or> c = CHR 0x0C \<or> c = CHR 0x0D)"

definition matchRest :: "string \<Rightarrow> string option" where
  "matchRest r =
     (let rest = dropWhile isReSpace r in
      if CHR 0x0A \<in> set rest then None
      else if rest \<noteq> [] then Some rest
      else if r \<noteq> [] \<and> last r \<noteq> CHR 0x0A then Some [last r]
      else None)"

fun tryOperators :: "string list \<Rightarrow> string \<Rightarrow> (string \<times> string) option" where
  "tryOperators [] r = None"
| "tryOperators (operator # others) r =
     (if take (length operator) r = operator
      then (case matchRest (drop (length operator) r) of
              Some v \<Rightarrow> Some (operator, v)
            | None \<Rightarrow> tryOperators others r)
      else tryOperators others r)"

definition matchCondition :: "string \<Rightarrow> (string \<times> string \<times> string) option" where
  "matchCondition condition =
     (let field = takeWhile isWordChar condition;
          r = dropWhile isReSpace (dropWhile isWordChar condition)
      in if field = [] then None
         else (case tryOperators [''>='', ''<='', ''!='', ''>'', ''<'', ''=''] r of
                 None \<Rightarrow> None
               | Some (operator, v) \<Rightarrow> Some (field, operator, v)))"

definition parseCondition :: "golib \<Rightarrow> string \<Rightarrow> Filter \<Rightarrow> error + Filter" where
  "parseCondition lib condition flt =
     (case matchCondition condition of
        None \<Rightarrow> Inl (Errorf ''invalid syntax, expected field operator value'')
      | Some (field0, operator, value0) \<Rightarrow>
          let field = ToLower lib field0; value = TrimSpace value0 in
          if field = ''age'' then
            (if Age flt \<noteq> None then Inl (Errorf ''age filter already specified'')
             else case validateAgeOperator operator of
                    Some err \<Rightarrow> Inl err
                  | None \<Rightarrow>
                      (case validateAgeValue lib value of
                         Some err \<Rightarrow> Inl err
                       | None \<Rightarrow>
                           Inr (flt \<lparr> Age := Some \<lparr> af_Operator = operator, af_Value = value \<rparr> \<rparr>)))
          else if field = ''size'' then
            (if f_Size flt \<noteq> None then Inl (Errorf ''size filter already specified'')
             else case validateSizeOperator operator of
                    Some err \<Rightarrow> Inl err
                  | None \<Rightarrow>
                      (case validateSizeValue lib value of
                         Some err \<Rightarrow> Inl err
                       | None \<Rightarrow>
                           Inr (flt \<lparr> f_Size := Some \<lparr> sf_Operator = operator, sf_Value = value \<rparr> \<rparr>)))
          else if field = ''storageclass'' then
            (if f_StorageClass flt \<noteq> None then Inl (Errorf ''storageClass filter already specified'')
             else case validateStringOperator operator of
                    Some err \<Rightarrow> Inl err
                  | None \<Rightarrow>
                      Inr (flt \<lparr> f_StorageClass := Some \<lparr> st_Operator = operator, st_Value = value \<rparr> \<rparr>))
          else if field = ''region'' then
            (if f_Region flt \<noteq> None then Inl (Errorf ''region filter already specified'')
             else case validateStringOperator operator of
                    Some err \<Rightarrow> Inl err
                  | None \<Rightarrow>
                      Inr (flt \<lparr> f_Region := Some \<lparr> st_Operator = operator, st_Value = value \<rparr> \<rparr>))
          else if field = ''bucket'' then
            (if f_Bucket flt \<noteq> None then Inl (Errorf ''bucket filter already specified'')
             else case validateStringOperator operator of
                    Some err \<Rightarrow> Inl err
                  | None \<Rightarrow>
                      Inr (flt \<lparr> f_Bucket := Some \<lparr> st_Operator = operator, st_Value = value \<rparr> \<rparr>))
          else Inl (Errorf (''unsupported field '' @ quoted field)))"

text \<open>\<open>strings.Split(s, ",")\<close>.\<close>

fun splitComma :: "string \<Rightarrow> string \<Rightarrow> string list" where
  "splitComma [] cur = [rev cur]"
| "splitComma (c # cs) cur =
     (if c = CHR '','' then rev cur # splitComma cs [] else splitComma cs (c # cur))"

fun parseConditions :: "golib \<Rightarrow> string list \<Rightarrow> Filter \<Rightarrow> error + Filter" where
  "parseConditions lib [] flt = Inr flt"
| "parseConditions lib (condition0 # rest) flt =
     (let condition = TrimSpace condition0 in
      if condition = [] then parseConditions lib rest flt
      else (case parseCondition lib condition flt of
              Inl err \<Rightarrow> Inl (Wrap (''invalid filter condition '' @ quoted condition) err)
            | Inr filter' \<Rightarrow> parseConditions lib rest filter'))"

definition ParseFilter :: "golib \<Rightarrow> string \<Rightarrow> error + Filter" where
  "ParseFilter lib filterStr =
     (if TrimSpace filterStr = [] then Inr emptyFilter
      else parseConditions lib (splitComma filterStr []) emptyFilter)"

subsection \<open>Matching\<close>

text \<open>\<open>if diff < 0 { diff = -diff }\<close> on a duration.\<close>

definition absDuration :: "int \<Rightarrow> int" where
  "absDuration diff = (if diff < 0 then wrap64 (- diff) else diff)"

definition matchesAgeFilter :: "golib \<Rightarrow> int \<Rightarrow> MultipartUpload \<Rightarrow> AgeFilter \<Rightarrow> bool" where
  "matchesAgeFilter lib now upload flt =
     (let uploadAge = Since now (Initiated upload) in
      case parseAgeDuration lib (af_Value flt) of
        Inl err \<Rightarrow> False
      | Inr filterDuration \<Rightarrow>
          if af_Operator flt = ''>'' then uploadAge > filterDuration
          else if af_Operator flt = ''<'' then uploadAge < filterDuration
          else if af_Operator flt = ''>='' then uploadAge \<ge> filterDuration
          else if af_Operator flt = ''<='' then uploadAge \<le> filterDuration
          else if af_Operator flt = ''=''
            then absDuration (wrap64 (uploadAge - filterDuration)) \<le> Hour
          else if af_Operator flt = ''!=''
            then absDuration (wrap64 (uploadAge - filterDuration)) > Hour
          else False)"

definition matchesSizeFilter :: "golib \<Rightarrow> MultipartUpload \<Rightarrow> SizeFilter \<Rightarrow> bool" where
  "matchesSizeFilter lib upload flt =
     (case parseSizeBytes lib (sf_Value flt) of
        Inl err \<Rightarrow> False
      | Inr filterSize \<Rightarrow>
          if sf_Operator flt = ''>'' then Size upload > filterSize
          else if sf_Operator flt = ''<'' then Size upload < filterSize
          else if sf_Operator flt = ''>='' then Size upload \<ge> filterSize
          else if sf_Operator flt = ''<='' then Size upload \<le> filterSize
          else if sf_Operator flt = ''='' then Size upload = filterSize
          else if sf_Operator flt = ''!='' then Size upload \<noteq> filterSize
          else False)"

definition matchesStringFilter :: "'a caselib_scheme \<Rightarrow> string \<Rightarrow> StringFilter \<Rightarrow> bool" where
  "matchesStringFilter lib value flt =
     (if st_Operator flt = ''='' then EqualFold lib value (st_Value flt)
      else if st_Operator flt = ''!='' then \<not> EqualFold lib value (st_Value flt)
      else False)"

definition matchesFilter :: "golib \<Rightarrow> int \<Rightarrow> MultipartUpload \<Rightarrow> Filter \<Rightarrow> bool" where
  "matchesFilter lib now upload flt =
     (if (case Age flt of Some f \<Rightarrow> \<not> matchesAgeFilter lib now upload f | None \<Rightarrow> False) then False
      else if (case f_Size flt of Some f \<Rightarrow> \<not> matchesSizeFilter lib upload f | None \<Rightarrow> False) then False
      else if (case f_StorageClass flt of
                 Some f \<Rightarrow> \<not> matchesStringFilter lib (StorageClass upload) f | None \<Rightarrow> False) then False
      else if (case f_Region flt of
                 Some f \<Rightarrow> \<not> matchesStringFilter lib (Region upload) f | None \<Rightarrow> False) then False
      else if (case f_Bucket flt of
                 Some f \<Rightarrow> \<not> matchesStringFilter lib (Bucket upload) f | None \<Rightarrow> False) then False
      else True)"

definition isEmptyFilter :: "Filter \<Rightarrow> bool" where
  "isEmptyFilter flt =
     (Age flt = None \<and> f_Size flt = None \<and> f_StorageClass flt = None
      \<and> f_Region flt = None \<and> f_Bucket flt = None)"

definition ApplyFilter :: "golib \<Rightarrow> int \<Rightarrow> MultipartUpload list \<Rightarrow> Filter \<Rightarrow> MultipartUpload list" where
  "ApplyFilter lib now uploads flt =
     (if isEmptyFilter flt then uploads
      else filter (\<lambda>upload. matchesFilter lib now upload flt) uploads)"

text \<open>
  The cache of a service with the expiry of one hour holds, for a bucket, a region and
  the instant at which it was stored.
\<close>

definition cached :: "BucketService \<Rightarrow> string \<Rightarrow> string \<Rightarrow> int \<Rightarrow> bool" where
  "cached s bucketName region t =
     (regionCache s bucketName = Some region \<and> cacheTime s bucketName = Some t \<and> cacheExpiry s = Hour)"

text \<open>
  A record that the selector of the options keeps, at the instant \<open>now\<close>: it lies in
  the bucket asked for, is at least as old as \<open>OlderThan\<close>, smaller than
  \<open>SmallerThan\<close> and larger than \<open>LargerThan\<close>, for those of the four that are set.
  The dry-run service selects again, at its own instant, among the records that
  \<open>DeleteUploads\<close> selected.
\<close>

definition selected :: "int \<Rightarrow> DeleteOptions \<Rightarrow> MultipartUpload \<Rightarrow> bool" where
  "selected now opts u =
     ((do_BucketName opts = [] \<or> Bucket u = do_BucketName opts)
      \<and> (case OlderThan opts of Some olderThan \<Rightarrow> olderThan \<le> Since now (Initiated u) | None \<Rightarrow> True)
      \<and> (case SmallerThan opts of Some smallerThan \<Rightarrow> Size u < smallerThan | None \<Rightarrow> True)
      \<and> (case LargerThan opts of Some largerThan \<Rightarrow> largerThan < Size u | None \<Rightarrow> True))"

definition simulated :: "delete_env \<Rightarrow> MultipartUpload list \<Rightarrow> DeleteOptions \<Rightarrow> MultipartUpload list" where
  "simulated env uploads opts =
     filter (selected (dryRunClock env) opts) (filter (selected (clock env) opts) uploads)"

text \<open>
  The breakdown of a list of records by bucket, by region or by storage class (\<open>key\<close>):
  a group for every value of the key that occurs, with the number of its records, the
  sum of their sizes (in \<open>int64\<close>), and the savings that the cost calculator estimates
  for the records of the group, absent when the calculator fails on them.
\<close>

definition totalSize :: "MultipartUpload list \<Rightarrow> int" where
  "totalSize uploads = wrap64 (sum_list (map Size uploads))"

definition countBy :: "(MultipartUpload \<Rightarrow> string) \<Rightarrow> MultipartUpload list \<Rightarrow> string \<Rightarrow> int option" where
  "countBy key uploads k =
     (if k \<in> key ` set uploads
      then Some (wrap64 (int (length (filter (\<lambda>u. key u = k) uploads))))
      else None)"

definition sizeBy :: "(MultipartUpload \<Rightarrow> string) \<Rightarrow> MultipartUpload list \<Rightarrow> string \<Rightarrow> int option" where
  "sizeBy key uploads k =
     (if k \<in> key ` set uploads
      then Some (totalSize (filter (\<lambda>u. key u = k) uploads))
      else None)"

definition savingsBy :: "(MultipartUpload list \<Rightarrow> error + rat) \<Rightarrow> (MultipartUpload \<Rightarrow> string)
    \<Rightarrow> MultipartUpload list \<Rightarrow> string \<Rightarrow> rat option" where
  "savingsBy EstimateSavings key uploads k =
     (if k \<in> key ` set uploads
      then (case EstimateSavings (filter (\<lambda>u. key u = k) uploads) of
              Inr savings \<Rightarrow> Some savings
            | Inl err \<Rightarrow> None)
      else None)"

text \<open>
  A record whose deletion fails: it does not pass \<open>Validate\<close>, or the remote refuses
  to abort it.
\<close>

definition deleteFails :: "(AbortMultipartUploadInput \<Rightarrow> error option) \<Rightarrow> MultipartUpload \<Rightarrow> bool" where
  "deleteFails abort u = (MultipartUpload_Validate u \<noteq> None \<or> abort (abortInput u) \<noteq> None)"

text \<open>
  What one upload contributes to the result of the batch: its record with the size
  filled in when \<open>GetUploadSize\<close> succeeds, nothing when it fails.
\<close>

definition sizedRecord :: "(MultipartUpload \<Rightarrow> error + int) \<Rightarrow> MultipartUpload \<Rightarrow> MultipartUpload list" where
  "sizedRecord GetUploadSize u =
     (case GetUploadSize u of Inl err \<Rightarrow> [] | Inr sz \<Rightarrow> [u \<lparr> Size := sz \<rparr>])"

definition sizeFailed :: "(MultipartUpload \<Rightarrow> error + int) \<Rightarrow> MultipartUpload \<Rightarrow> bool" where
  "sizeFailed GetUploadSize u = (case GetUploadSize u of Inl err \<Rightarrow> True | Inr sz \<Rightarrow> False)"

text \<open>
  A listing entry is complete when it carries a key, an upload id and an initiation
  time. \<open>recordOf\<close> relates a complete entry and the record made of it,
  \<open>entryRecord\<close> is that record, and \<open>pageRecords\<close> are the records of the complete
  entries of a page, in the order of the page.
\<close>

definition complete :: "S3Upload \<Rightarrow> bool" where
  "complete e = (u_Key e \<noteq> None \<and> u_UploadId e \<noteq> None \<and> u_Initiated e \<noteq> None)"

definition recordOf :: "S3Bucket \<Rightarrow> S3Upload \<Rightarrow> MultipartUpload \<Rightarrow> bool" where
  "recordOf bucket e u =
     (u_Key e = Some (Key u) \<and> u_UploadId e = Some (UploadID u) \<and> u_Initiated e = Some (Initiated u)
      \<and> Bucket u = Name bucket \<and> Region u = b_Region bucket \<and> Size u = 0
      \<and> StorageClass u = (if u_StorageClass e \<noteq> [] then u_StorageClass e else ''STANDARD''))"

definition entryRecord :: "S3Bucket \<Rightarrow> S3Upload \<Rightarrow> MultipartUpload" where
  "entryRecord bucket e =
     \<lparr> Bucket = Name bucket,
       Key = (case u_Key e of Some k \<Rightarrow> k | None \<Rightarrow> []),
       UploadID = (case u_UploadId e of Some i \<Rightarrow> i | None \<Rightarrow> []),
       Initiated = (case u_Initiated e of Some t \<Rightarrow> t | None \<Rightarrow> zeroTime),
       Size = 0,
       StorageClass = (if u_StorageClass e \<noteq> [] then u_StorageClass e else ''STANDARD''),
       Region = b_Region bucket \<rparr>"

definition pageRecords :: "S3Bucket \<Rightarrow> ListMultipartUploadsOutput \<Rightarrow> MultipartUpload list" where
  "pageRecords bucket page = map (entryRecord bucket) (filter complete (out_Uploads page))"

text \<open>
  The pages that the remote serves to one listing of a bucket, from the state in which
  the listing has \<open>collected\<close> its records so far and holds the two markers: every page
  answers the request that the listing makes in that state, every page but the last is
  truncated, and the listing goes on from the records of the complete entries of the
  page and from the markers of the page. The pages end with a page that is not
  truncated, or when the records collected reach the number asked for.
\<close>

fun served :: "upload_client \<Rightarrow> S3Bucket \<Rightarrow> ListOptions \<Rightarrow> MultipartUpload list \<Rightarrow> string option
    \<Rightarrow> string option \<Rightarrow> ListMultipartUploadsOutput list \<Rightarrow> bool" where
  "served client bucket opts collected keyMarker uploadIDMarker [] = capReached opts collected"
| "served client bucket opts collected keyMarker uploadIDMarker (page # pages) =
     (\<not> capReached opts collected
      \<and> client (listRequest bucket opts collected keyMarker uploadIDMarker) = Inr page
      \<and> (if IsTruncated page = Some True
           then served client bucket opts (collected @ pageRecords bucket page)
                  (NextKeyMarker page) (NextUploadIdMarker page) pages
           else pages = []))"

section \<open>Inputs of the examples\<close>

definition noOptions :: ListOptions where
  "noOptions = \<lparr> lo_Region = [], lo_BucketName = [], MaxResults = 0, Offset = 0 \<rparr>"

definition bucketA :: S3Bucket where
  "bucketA = \<lparr> Name = ''a'', b_Region = ''us-east-1'', b_Uploads = [] \<rparr>"

definition bucketB :: S3Bucket where
  "bucketB = \<lparr> Name = ''b'', b_Region = ''eu-west-1'', b_Uploads = [] \<rparr>"

definition bucketC :: S3Bucket where
  "bucketC = \<lparr> Name = ''c'', b_Region = ''us-east-1'', b_Uploads = [] \<rparr>"

definition accessDenied :: error where
  "accessDenied = Sdk \<lparr> asNetError = None, asNoSuchBucket = False, errString = ''AccessDenied'' \<rparr>"

text \<open>Bucket b cannot be listed; every other bucket holds one upload, of key k.\<close>

definition exampleClient :: upload_client where
  "exampleClient input =
     (if in_Bucket input = ''b'' then Inl accessDenied
      else Inr \<lparr> out_Uploads = [\<lparr> u_Key = Some ''k'', u_UploadId = Some ''id'',
                                  u_Initiated = Some 1700000000000000000, u_StorageClass = [] \<rparr>],
                 IsTruncated = Some False, NextKeyMarker = None, NextUploadIdMarker = None \<rparr>)"

definition exampleRegional :: "string \<Rightarrow> error + upload_client" where
  "exampleRegional region = Inr exampleClient"

definition uploadOf :: "S3Bucket \<Rightarrow> MultipartUpload" where
  "uploadOf bucket = \<lparr> Bucket = Name bucket, Key = ''k'', UploadID = ''id'',
     Initiated = 1700000000000000000, Size = 0, StorageClass = ''STANDARD'',
     Region = b_Region bucket \<rparr>"

text \<open>A remote whose only entry carries an empty key.\<close>

definition emptyKeyClient :: upload_client where
  "emptyKeyClient input =
     Inr \<lparr> out_Uploads = [\<lparr> u_Key = Some [], u_UploadId = Some ''id'',
                             u_Initiated = Some 1700000000000000000, u_StorageClass = [] \<rparr>],
           IsTruncated = None, NextKeyMarker = None, NextUploadIdMarker = None \<rparr>"

definition emptyKeyRegional :: "string \<Rightarrow> error + upload_client" where
  "emptyKeyRegional region = Inr emptyKeyClient"

definition emptyKeyUpload :: MultipartUpload where
  "emptyKeyUpload = \<lparr> Bucket = ''a'', Key = [], UploadID = ''id'',
     Initiated = 1700000000000000000, Size = 0, StorageClass = ''STANDARD'',
     Region = ''us-east-1'' \<rparr>"

text \<open>
  A remote that serves two pages. The first is truncated and holds a complete entry, an
  entry with no key and an entry with no upload id; the second, asked for with the
  markers of the first, holds an entry with no initiation time and a complete entry in
  storage class GLACIER.
\<close>

definition firstPage :: ListMultipartUploadsOutput where
  "firstPage =
     \<lparr> out_Uploads =
         [\<lparr> u_Key = Some ''k1'', u_UploadId = Some ''id1'', u_Initiated = Some 1700000000000000000,
            u_StorageClass = [] \<rparr>,
          \<lparr> u_Key = None, u_UploadId = Some ''id2'', u_Initiated = Some 1700000000000000000,
            u_StorageClass = [] \<rparr>,
          \<lparr> u_Key = Some ''k3'', u_UploadId = None, u_Initiated = Some 1700000000000000000,
            u_StorageClass = [] \<rparr>],
       IsTruncated = Some True, NextKeyMarker = Some ''k3'', NextUploadIdMarker = Some ''id3'' \<rparr>"

definition secondPage :: ListMultipartUploadsOutput where
  "secondPage =
     \<lparr> out_Uploads =
         [\<lparr> u_Key = Some ''k4'', u_UploadId = Some ''id4'', u_Initiated = None,
            u_StorageClass = [] \<rparr>,
          \<lparr> u_Key = Some ''k5'', u_UploadId = Some ''id5'', u_Initiated = Some 1700000000000000001,
            u_StorageClass = ''GLACIER'' \<rparr>],
       IsTruncated = None, NextKeyMarker = None, NextUploadIdMarker = None \<rparr>"

definition pagedClient :: upload_client where
  "pagedClient input =
     (if KeyMarker input = None \<and> UploadIdMarker input = None then Inr firstPage
      else if KeyMarker input = Some ''k3'' \<and> UploadIdMarker input = Some ''id3'' then Inr secondPage
      else Inl accessDenied)"

definition pagedRegional :: "string \<Rightarrow> error + upload_client" where
  "pagedRegional region = Inr pagedClient"

definition pagedUploads :: "MultipartUpload list" where
  "pagedUploads =
     [\<lparr> Bucket = ''a'', Key = ''k1'', UploadID = ''id1'', Initiated = 1700000000000000000, Size = 0,
        StorageClass = ''STANDARD'', Region = ''us-east-1'' \<rparr>,
      \<lparr> Bucket = ''a'', Key = ''k5'', UploadID = ''id5'', Initiated = 1700000000000000001, Size = 0,
        StorageClass = ''GLACIER'', Region = ''us-east-1'' \<rparr>]"

text \<open>Options that ask for one record from the sixth on.\<close>

definition beyondEnd :: ListOptions where
  "beyondEnd = \<lparr> lo_Region = [], lo_BucketName = [], MaxResults = 1, Offset = 5 \<rparr>"

text \<open>An operation that is throttled at every call, under a context that is never done.\<close>

definition slowDown :: sdk_error where
  "slowDown = \<lparr> asNetError = None, asNoSuchBucket = False,
     errString = ''SlowDown: Please reduce your request rate.'' \<rparr>"

definition alwaysSlowDown :: retry_env where
  "alwaysSlowDown = \<lparr> limiterWait = (\<lambda>i. None), operation = (\<lambda>i. Some slowDown),
     ctxDone = (\<lambda>i. False), floatDelay = (\<lambda>cfg attempt. 0) \<rparr>"

text \<open>
  A remote that places every bucket in eu-west-1 and one that places it in us-east-1
  (the empty location constraint); the service after one resolution of bucket a, looked
  up at instant 1000 and stored at instant 1001.
\<close>

definition exampleLocation :: "string \<Rightarrow> error + string" where
  "exampleLocation bucketName = Inr ''eu-west-1''"

definition movedLocation :: "string \<Rightarrow> error + string" where
  "movedLocation bucketName = Inr []"

definition warmService :: BucketService where
  "warmService = gr_service (GetBucketRegion NewBucketService exampleLocation 1000 1001 ''a'')"

text \<open>Sizes can be read in every bucket but b.\<close>

definition exampleGetUploadSize :: "MultipartUpload \<Rightarrow> error + int" where
  "exampleGetUploadSize u = (if Bucket u = ''b'' then Inl accessDenied else Inr 1024)"

definition secondOf :: "S3Bucket \<Rightarrow> MultipartUpload" where
  "secondOf bucket = (uploadOf bucket) \<lparr> Key := ''k2'' \<rparr>"

text \<open>
  A deletion in which the remote refuses to abort the uploads of bucket b and the
  workers finish in reverse order; options with no selector, for a dry run and for a
  forced deletion.
\<close>

definition dryRunOptions :: DeleteOptions where
  "dryRunOptions = \<lparr> DryRun = True, Force = False, OlderThan = None, SmallerThan = None,
     LargerThan = None, do_BucketName = [], Quiet = False \<rparr>"

definition forceOptions :: DeleteOptions where
  "forceOptions = \<lparr> DryRun = False, Force = True, OlderThan = None, SmallerThan = None,
     LargerThan = None, do_BucketName = [], Quiet = False \<rparr>"

text \<open>A cost calculator that estimates one tenth of a dollar for every byte.\<close>

definition exampleSavings :: "MultipartUpload list \<Rightarrow> error + rat" where
  "exampleSavings uploads = Inr (of_int (sum_list (map Size uploads)) / 10)"

definition exampleEnv :: delete_env where
  "exampleEnv = \<lparr> clock = 1700000100000000000, dryRunClock = 1700000100000000001,
     dryRunService = Some exampleSavings,
     fmt = \<lparr> formatDuration = (\<lambda>d. ''?d''), formatBytes = (\<lambda>n. ''?B'') \<rparr>,
     confirmation = [],
     caseTables = \<lparr> upperNonASCII = id, lowerNonASCII = id, equalFoldNonASCII = (=) \<rparr>,
     abortUpload = (\<lambda>input. if ab_Bucket input = ''b'' then Some accessDenied else None),
     schedule = rev \<rparr>"

definition threeUploads :: "MultipartUpload list" where
  "threeUploads = [uploadOf bucketA, uploadOf bucketB, uploadOf bucketC]"

text \<open>
  The same service with no dry-run service, and with a remote that aborts every upload
  it is asked to abort.
\<close>

definition legacyEnv :: delete_env where
  "legacyEnv = exampleEnv \<lparr> dryRunService := None \<rparr>"

definition acceptingEnv :: delete_env where
  "acceptingEnv = exampleEnv \<lparr> abortUpload := (\<lambda>input. None) \<rparr>"

text \<open>
  Two uploads of bucket a, of 10 and 5 bytes, and one of bucket b, of 7 bytes, in storage
  class GLACIER.
\<close>

definition sizedUploads :: "MultipartUpload list" where
  "sizedUploads =
     [(uploadOf bucketA) \<lparr> Size := 10 \<rparr>, (secondOf bucketA) \<lparr> Size := 5 \<rparr>,
      (uploadOf bucketB) \<lparr> Size := 7, StorageClass := ''GLACIER'' \<rparr>]"

text \<open>
  An upload whose key is the no-break space U+00A0, and a batch of an upload that the
  remote aborts, one that it refuses to abort, and this one.
\<close>

definition blankKeyUpload :: MultipartUpload where
  "blankKeyUpload = (uploadOf bucketA) \<lparr> Key := [CHR 0xC2, CHR 0xA0] \<rparr>"

definition mixedBatch :: "MultipartUpload list" where
  "mixedBatch = [uploadOf bucketA, uploadOf bucketB, blankKeyUpload]"

text \<open>
  A library that answers nothing (the examples never reach it), the
  predicate \<open>age=7d\<close>, and a record initiated at a given instant.
\<close>

definition noLib :: golib where
  "noLib = \<lparr> upperNonASCII = id, lowerNonASCII = id, equalFoldNonASCII = (=),
     parseFloat = (\<lambda>s. None), roundFloat = (\<lambda>q. NaN), convertOutOfRange = (\<lambda>x. 0) \<rparr>"

definition weekFilter :: AgeFilter where
  "weekFilter = \<lparr> af_Operator = ''='', af_Value = ''7d'' \<rparr>"

definition initiatedAt :: "int \<Rightarrow> MultipartUpload" where
  "initiatedAt t = \<lparr> Bucket = ''a'', Key = ''k'', UploadID = ''id'', Initiated = t, Size = 0,
     StorageClass = ''STANDARD'', Region = ''us-east-1'' \<rparr>"

section \<open>Verification\<close>

subsection \<open>Strings\<close>

text \<open>An ASCII byte starts and ends no sequence of \<open>unicodeSpaces\<close>.\<close>

lemma high_byte:
  assumes "(of_char c :: nat) < 128"
  shows "c \<noteq> CHR 0xC2" "c \<noteq> CHR 0xE1" "c \<noteq> CHR 0xE2" "c \<noteq> CHR 0xE3"
        "c \<noteq> CHR 0x85" "c \<noteq> CHR 0xA0" "c \<noteq> CHR 0x80" "c \<noteq> CHR 0x81" "c \<noteq> CHR 0x82"
        "c \<noteq> CHR 0x83" "c \<noteq> CHR 0x84" "c \<noteq> CHR 0x86" "c \<noteq> CHR 0x87" "c \<noteq> CHR 0x88"
        "c \<noteq> CHR 0x89" "c \<noteq> CHR 0x8A" "c \<noteq> CHR 0xA8" "c \<noteq> CHR 0xA9" "c \<noteq> CHR 0xAF"
        "c \<noteq> CHR 0x9F"
  using assms by auto

lemma stripFirst_ascii:
  assumes "(of_char c :: nat) < 128"
  shows "stripFirst unicodeSpaces (c # cs) = None"
    and "stripFirst (map rev unicodeSpaces) (c # cs) = None"
  by (simp_all add: unicodeSpaces_def high_byte [OF assms])

lemma trimLeft_Nil: "trimLeft ws [] = []"
  by (simp add: trimLeft.simps)

lemma trimLeft_ascii:
  assumes "(of_char c :: nat) < 128" and "\<not> isSpace c"
  shows "trimLeft unicodeSpaces (c # cs) = c # cs"
    and "trimLeft (map rev unicodeSpaces) (c # cs) = c # cs"
  using assms(2) by (simp_all add: trimLeft.simps [of _ "c # cs"] stripFirst_ascii [OF assms(1)])

lemma TrimSpace_Nil: "TrimSpace [] = []"
  by (simp add: TrimSpace_def trimLeft_Nil)

lemma TrimSpace_id:
  assumes "s \<noteq> []" and "\<not> isSpace (hd s)" and "\<not> isSpace (last s)"
      and "(of_char (hd s) :: nat) < 128" and "(of_char (last s) :: nat) < 128"
  shows "TrimSpace s = s"
proof -
  from assms(1) obtain c cs where s: "s = c # cs" by (cases s) auto
  from assms(1) obtain d ds where r: "rev s = d # ds" by (cases "rev s") auto
  then have d: "d = last s" using assms(1) by (metis hd_rev list.sel(1))
  have 1: "trimLeft unicodeSpaces s = s"
    using assms(2,4) by (simp add: s trimLeft_ascii)
  have 2: "trimLeft (map rev unicodeSpaces) (rev s) = rev s"
    using assms(3,5) d unfolding r by (simp add: trimLeft_ascii)
  show ?thesis by (simp add: TrimSpace_def 1 2)
qed

lemma TrimSpace_ascii:
  "TrimSpace ''a'' = ''a''" "TrimSpace ''b'' = ''b''" "TrimSpace ''c'' = ''c''"
  "TrimSpace ''k'' = ''k''" "TrimSpace ''k2'' = ''k2''" "TrimSpace ''id'' = ''id''"
  "TrimSpace ''STANDARD'' = ''STANDARD''"
  "TrimSpace ''us-east-1'' = ''us-east-1''" "TrimSpace ''eu-west-1'' = ''eu-west-1''"
  by (simp_all add: TrimSpace_id isSpace_def)

subsection \<open>Listing\<close>

lemma wrap64_le: "- 9223372036854775808 \<le> x \<Longrightarrow> wrap64 x \<le> x"
proof -
  assume "- 9223372036854775808 \<le> x"
  then have "0 \<le> x + 9223372036854775808" by simp
  then have "(x + 9223372036854775808) mod 18446744073709551616 \<le> x + 9223372036854775808"
    by (rule zmod_le_nonneg_dividend)
  then show ?thesis by (simp add: wrap64_def)
qed

lemma collectResults_eq:
  "collectResults rs a e = (a @ successes rs, e @ failures rs)"
  by (induction rs a e rule: collectResults.induct) (simp_all add: successes_def failures_def)

lemma applyPagination_empty:
  "int (length uploads) \<le> Offset opts \<Longrightarrow> applyPagination uploads opts = Inr []"
  by (simp add: applyPagination_def)

lemma applyPagination_length:
  assumes "MaxResults opts > 0" and "applyPagination uploads opts = Inr r"
  shows "int (length r) \<le> MaxResults opts"
proof (cases "int (length uploads) \<le> Offset opts")
  case True
  with assms show ?thesis by (simp add: applyPagination_def)
next
  case False
  let ?s = "Offset opts" and ?w = "wrap64 (Offset opts + MaxResults opts)"
  let ?e = "if ?w < int (length uploads) then ?w else int (length uploads)"
  from False assms have sl: "slice uploads ?s ?e = Inr r"
    by (simp add: applyPagination_def Let_def)
  then have b: "0 \<le> ?s" "?s \<le> ?e" "?e \<le> int (length uploads)"
    and r: "r = take (nat (?e - ?s)) (drop (nat ?s) uploads)"
    by (auto simp: slice_def split: if_splits)
  from b(1) assms(1) have "?w \<le> ?s + MaxResults opts" by (intro wrap64_le) simp
  then have "?e - ?s \<le> MaxResults opts" by (simp split: if_splits)
  moreover from r have "int (length r) \<le> ?e - ?s" using b by simp
  ultimately show ?thesis by simp
qed

lemma sequence_map_Some: "sequence (map Some ys) = Some ys"
  by (induction ys) simp_all






lemma listUploadsForBuckets_eq:
  assumes "sequence (map (\<lambda>b. listUploadsForBucket fuel regional b opts) arrival) = Some results"
  shows "listUploadsForBuckets fuel regional arrival opts =
     (case (if Offset opts > 0 \<or> MaxResults opts > 0
            then applyPagination (successes results) opts else Inr (successes results)) of
        Inl p \<Rightarrow> Some (Inl p)
      | Inr ups \<Rightarrow>
          Some (Inr \<lparr> lr_uploads = ups,
                      lr_error = (if failures results = [] then None
                                  else Some (ListFailed (int (length (failures results))))),
                      lr_stderr = (if failures results = [] then [] else logErrors (failures results)) \<rparr>))"
  using assms by (simp add: listUploadsForBuckets_def collectResults_eq split: sum.splits)

lemma ListUploads_multi_bucket:
  assumes "ListOptions_Validate opts = None" and "lo_BucketName opts = []"
      and "listBuckets = Inr buckets" and "lo_Region opts = []"
  shows "ListUploads fuel regional getBucketRegion listBuckets sched opts
           = listUploadsForBuckets fuel regional (sched buckets) opts"
  using assms by (simp add: ListUploads_def)

lemma example_listing:
  "listUploadsForBucket (Suc n) exampleRegional bucketA noOptions = Some (Inr [uploadOf bucketA])"
  "listUploadsForBucket (Suc n) exampleRegional bucketB noOptions =
     Some (Inl (Wrap ''failed to list multipart uploads for bucket b'' accessDenied))"
  "listUploadsForBucket (Suc n) exampleRegional bucketC noOptions = Some (Inr [uploadOf bucketC])"
  by (simp_all add: listUploadsForBucket_def exampleRegional_def exampleClient_def bucketA_def
        bucketB_def bucketC_def noOptions_def uploadOf_def capReached_def listRequest_def)

lemma example_listing_beyondEnd:
  "listUploadsForBucket (Suc n) exampleRegional bucketA beyondEnd = Some (Inr [uploadOf bucketA])"
  "listUploadsForBucket (Suc n) exampleRegional bucketB beyondEnd =
     Some (Inl (Wrap ''failed to list multipart uploads for bucket b'' accessDenied))"
  "listUploadsForBucket (Suc n) exampleRegional bucketC beyondEnd = Some (Inr [uploadOf bucketC])"
  by (simp_all add: listUploadsForBucket_def exampleRegional_def exampleClient_def bucketA_def
        bucketB_def bucketC_def beyondEnd_def uploadOf_def capReached_def listRequest_def)

lemma convertUploads_pageRecords:
  "convertUploads bucket es = map (entryRecord bucket) (filter complete es)"
proof (induction es)
  case Nil
  then show ?case by simp
next
  case (Cons e es)
  then show ?case
    by (cases "u_Key e"; cases "u_UploadId e"; cases "u_Initiated e")
       (simp_all add: complete_def entryRecord_def)
qed

lemma entryRecord_recordOf: "complete e \<Longrightarrow> recordOf bucket e (entryRecord bucket e)"
  by (auto simp: complete_def recordOf_def entryRecord_def)

lemma listLoop_step:
  assumes "\<not> capReached opts acc" and "regional (b_Region bucket) = Inr client"
      and "client (listRequest bucket opts acc km um) = Inr page"
  shows "listLoop (Suc fuel) regional bucket opts acc km um =
           (if IsTruncated page = Some True
            then listLoop fuel regional bucket opts (acc @ pageRecords bucket page)
                   (NextKeyMarker page) (NextUploadIdMarker page)
            else Some (Inr (acc @ pageRecords bucket page)))"
  using assms by (simp add: convertUploads_pageRecords pageRecords_def)

lemma listLoop_served:
  assumes "regional (b_Region bucket) = Inr client"
  shows "served client bucket opts acc km um pages \<Longrightarrow> length pages < fuel \<Longrightarrow>
         listLoop fuel regional bucket opts acc km um
           = Some (Inr (acc @ concat (map (pageRecords bucket) pages)))"
proof (induction pages arbitrary: fuel acc km um)
  case Nil
  then obtain f where "fuel = Suc f" by (cases fuel) auto
  with Nil show ?case by simp
next
  case (Cons page pages)
  from Cons.prems(2) obtain f where f: "fuel = Suc f" "length pages < f" by (cases fuel) auto
  from Cons.prems(1) have c: "\<not> capReached opts acc"
    and r: "client (listRequest bucket opts acc km um) = Inr page"
    by simp_all
  show ?case
  proof (cases "IsTruncated page = Some True")
    case True
    with Cons.prems(1) have "served client bucket opts (acc @ pageRecords bucket page)
        (NextKeyMarker page) (NextUploadIdMarker page) pages"
      by simp
    from Cons.IH [OF this f(2)] True show ?thesis
      unfolding f(1) listLoop_step [where regional = regional and client = client, OF c assms r] by simp
  next
    case False
    with Cons.prems(1) have "pages = []" by simp
    with False show ?thesis
      unfolding f(1) listLoop_step [where regional = regional and client = client, OF c assms r] by simp
  qed
qed

lemma listLoop_returns:
  "listLoop fuel regional bucket opts acc km um = Some (Inr ups) \<Longrightarrow>
   (capReached opts acc \<and> ups = acc)
   \<or> (\<exists>client pages. regional (b_Region bucket) = Inr client
         \<and> served client bucket opts acc km um pages
         \<and> ups = acc @ concat (map (pageRecords bucket) pages))"
proof (induction fuel arbitrary: acc km um)
  case 0
  then show ?case by simp
next
  case (Suc fuel)
  show ?case
  proof (cases "capReached opts acc")
    case True
    with Suc.prems show ?thesis by simp
  next
    case False
    from Suc.prems False obtain client where c: "regional (b_Region bucket) = Inr client"
      by (cases "regional (b_Region bucket)") auto
    from Suc.prems False c obtain page where
      p: "client (listRequest bucket opts acc km um) = Inr page"
      by (cases "client (listRequest bucket opts acc km um)") auto
    note step = Suc.prems [unfolded listLoop_step [where regional = regional and client = client, OF False c p]]
    show ?thesis
    proof (cases "IsTruncated page = Some True")
      case nt: False
      with step have "ups = acc @ concat (map (pageRecords bucket) [page])" by simp
      moreover from False p nt have "served client bucket opts acc km um [page]" by simp
      ultimately show ?thesis using c by blast
    next
      case t: True
      with step have "listLoop fuel regional bucket opts (acc @ pageRecords bucket page)
          (NextKeyMarker page) (NextUploadIdMarker page) = Some (Inr ups)"
        by simp
      from Suc.IH [OF this] show ?thesis
      proof
        assume "capReached opts (acc @ pageRecords bucket page) \<and> ups = acc @ pageRecords bucket page"
        then have "served client bucket opts acc km um [page]"
          and "ups = acc @ concat (map (pageRecords bucket) [page])"
          using False p t by simp_all
        with c show ?thesis by blast
      next
        assume "\<exists>client pages. regional (b_Region bucket) = Inr client
           \<and> served client bucket opts (acc @ pageRecords bucket page)
                (NextKeyMarker page) (NextUploadIdMarker page) pages
           \<and> ups = (acc @ pageRecords bucket page) @ concat (map (pageRecords bucket) pages)"
        then obtain client' pages where
          c': "regional (b_Region bucket) = Inr client'"
          and s: "served client' bucket opts (acc @ pageRecords bucket page)
                (NextKeyMarker page) (NextUploadIdMarker page) pages"
          and u: "ups = (acc @ pageRecords bucket page) @ concat (map (pageRecords bucket) pages)"
          by blast
        from c c' have "client' = client" by simp
        with s False p t have "served client bucket opts acc km um (page # pages)" by simp
        moreover from u have "ups = acc @ concat (map (pageRecords bucket) (page # pages))" by simp
        ultimately show ?thesis using c by blast
      qed
    qed
  qed
qed

lemma pageRecords_entries:
  assumes "u \<in> set (concat (map (pageRecords bucket) pages))"
  shows "\<exists>page \<in> set pages. \<exists>e \<in> set (out_Uploads page). complete e \<and> recordOf bucket e u"
proof -
  from assms obtain page where p: "page \<in> set pages" "u \<in> set (pageRecords bucket page)" by auto
  from p(2) obtain e where "e \<in> set (out_Uploads page)" "complete e" "u = entryRecord bucket e"
    by (auto simp: pageRecords_def)
  with p(1) show ?thesis using entryRecord_recordOf by blast
qed





text \<open>
  Claim C10, as amended. When the offset is at or beyond the number of records
  collected, the multi-bucket path returns the empty list without slicing out of range;
  the error it returns with it is nil exactly when no bucket's listing failed, and is
  the aggregate error of the failed buckets otherwise. Whenever \<open>MaxResults > 0\<close>, a
  returned list has at most \<open>MaxResults\<close> records.
\<close>

theorem pagination_offset_beyond_end:
  assumes "sequence (map (\<lambda>b. listUploadsForBucket fuel regional b opts) arrival) = Some results"
  shows "(int (length (successes results)) \<le> Offset opts \<longrightarrow>
            (\<exists>r. listUploadsForBuckets fuel regional arrival opts = Some (Inr r)
                 \<and> lr_uploads r = []
                 \<and> (lr_error r = None \<longleftrightarrow> failures results = [])
                 \<and> (failures results \<noteq> [] \<longrightarrow>
                       lr_error r = Some (ListFailed (int (length (failures results)))))))
       \<and> (\<forall>r. 0 < MaxResults opts \<and> listUploadsForBuckets fuel regional arrival opts = Some (Inr r)
              \<longrightarrow> int (length (lr_uploads r)) \<le> MaxResults opts)"
proof (intro conjI impI allI)
  assume le: "int (length (successes results)) \<le> Offset opts"
  show "\<exists>r. listUploadsForBuckets fuel regional arrival opts = Some (Inr r)
                 \<and> lr_uploads r = []
                 \<and> (lr_error r = None \<longleftrightarrow> failures results = [])
                 \<and> (failures results \<noteq> [] \<longrightarrow>
                       lr_error r = Some (ListFailed (int (length (failures results)))))"
  proof (cases "Offset opts > 0 \<or> MaxResults opts > 0")
    case True
    then show ?thesis
      using listUploadsForBuckets_eq [OF assms] applyPagination_empty [OF le] by simp
  next
    case False
    with le have "length (successes results) = 0" by linarith
    then have "successes results = []" by simp
    with False show ?thesis
      using listUploadsForBuckets_eq [OF assms] by simp
  qed
next
  fix r
  assume a: "0 < MaxResults opts \<and> listUploadsForBuckets fuel regional arrival opts = Some (Inr r)"
  then obtain ups where p: "applyPagination (successes results) opts = Inr ups" and "lr_uploads r = ups"
    using listUploadsForBuckets_eq [OF assms] by (auto split: sum.splits if_splits)
  with a applyPagination_length [of opts "successes results" ups]
  show "int (length (lr_uploads r)) \<le> MaxResults opts" by simp
qed


theorem pagination_offset_beyond_end_witness:
  "sequence (map (\<lambda>b. listUploadsForBucket 1 exampleRegional b beyondEnd) [bucketC, bucketB, bucketA])
       = Some [Inr [uploadOf bucketC],
               Inl (Wrap ''failed to list multipart uploads for bucket b'' accessDenied),
               Inr [uploadOf bucketA]]
   \<and> int (length (successes [Inr [uploadOf bucketC],
               Inl (Wrap ''failed to list multipart uploads for bucket b'' accessDenied),
               Inr [uploadOf bucketA]])) \<le> Offset beyondEnd
   \<and> 0 < MaxResults beyondEnd
   \<and> (\<exists>r. listUploadsForBuckets 1 exampleRegional [bucketC, bucketB, bucketA] beyondEnd = Some (Inr r)
          \<and> lr_uploads r = [] \<and> lr_error r = Some (ListFailed 1)
          \<and> int (length (lr_uploads r)) \<le> MaxResults beyondEnd)"
proof -
  let ?results = "[Inr [uploadOf bucketC],
               Inl (Wrap ''failed to list multipart uploads for bucket b'' accessDenied),
               Inr [uploadOf bucketA]]"
  have h: "sequence (map (\<lambda>b. listUploadsForBucket 1 exampleRegional b beyondEnd)
             [bucketC, bucketB, bucketA]) = Some ?results"
    by (simp add: example_listing_beyondEnd)
  have o: "int (length (successes ?results)) \<le> Offset beyondEnd" "0 < MaxResults beyondEnd"
    by (simp_all add: successes_def beyondEnd_def)
  have f: "failures ?results \<noteq> []" "length (failures ?results) = 1"
    by (simp_all add: failures_def)
  from pagination_offset_beyond_end [OF h] o f h show ?thesis by auto
qed

text \<open>
  The claim as stated fails: the only bucket cannot be listed, no record is collected,
  the offset 0 is not below that number, and the call returns the empty list with a
  non-nil error.
\<close>

theorem pagination_nil_error_counterexample:
  "int (length (successes [Inl (Wrap ''failed to list multipart uploads for bucket b'' accessDenied)]))
      \<le> Offset noOptions
   \<and> listUploadsForBuckets 1 exampleRegional [bucketB] noOptions =
      Some (Inr \<lparr> lr_uploads = [], lr_error = Some (ListFailed 1),
                  lr_stderr = [BucketAccessError 1
                     (Wrap ''failed to list multipart uploads for bucket b'' accessDenied)] \<rparr>)"
proof -
  have o: "Offset noOptions = 0" "MaxResults noOptions = 0"
    by (simp_all add: noOptions_def)
  show ?thesis
    by (simp add: listUploadsForBuckets_def example_listing successes_def o logErrors_def)
qed


text \<open>
  Claim C9, as amended. The listing of a bucket returns exactly the records of the
  complete entries of the pages that the remote serves, page after page and in the order
  of each page: an entry that lacks its key, its upload id or its initiation time yields
  no record and no error, whatever the page it is on. Every record returned has size 0, a
  non-empty storage class (STANDARD when the entry carries none), the name and the
  region of the bucket, and the key, the upload id and the initiation time of a complete
  entry of one of these pages. The listing returns once it has made one request more
  than there are pages.
\<close>

theorem listing_records:
  "(regional (b_Region bucket) = Inr client \<and> served client bucket opts [] None None pages
      \<and> length pages < fuel
    \<longrightarrow> listUploadsForBucket fuel regional bucket opts
          = Some (Inr (concat (map (pageRecords bucket) pages))))
   \<and> (listUploadsForBucket fuel regional bucket opts = Some (Inr uploads)
      \<longrightarrow> (\<exists>client pages. regional (b_Region bucket) = Inr client
              \<and> served client bucket opts [] None None pages
              \<and> uploads = concat (map (pageRecords bucket) pages)
              \<and> (\<forall>u \<in> set uploads.
                    Size u = 0 \<and> StorageClass u \<noteq> [] \<and> Bucket u = Name bucket
                    \<and> Region u = b_Region bucket
                    \<and> (\<exists>page \<in> set pages. \<exists>e \<in> set (out_Uploads page).
                          complete e \<and> recordOf bucket e u))))"
proof (intro conjI impI)
  assume "regional (b_Region bucket) = Inr client \<and> served client bucket opts [] None None pages
      \<and> length pages < fuel"
  then show "listUploadsForBucket fuel regional bucket opts
          = Some (Inr (concat (map (pageRecords bucket) pages)))"
    unfolding listUploadsForBucket_def using listLoop_served [of regional bucket client opts "[]"]
    by simp
next
  assume "listUploadsForBucket fuel regional bucket opts = Some (Inr uploads)"
  then have l: "listLoop fuel regional bucket opts [] None None = Some (Inr uploads)"
    by (simp add: listUploadsForBucket_def)
  have "\<not> capReached opts []" by (simp add: capReached_def)
  with listLoop_returns [OF l] obtain client pages where
    c: "regional (b_Region bucket) = Inr client"
    and s: "served client bucket opts [] None None pages"
    and u: "uploads = concat (map (pageRecords bucket) pages)"
    by auto
  have "Size v = 0 \<and> StorageClass v \<noteq> [] \<and> Bucket v = Name bucket \<and> Region v = b_Region bucket
        \<and> (\<exists>page \<in> set pages. \<exists>e \<in> set (out_Uploads page). complete e \<and> recordOf bucket e v)"
    if "v \<in> set uploads" for v
  proof -
    from that u obtain page e where
      e: "page \<in> set pages" "e \<in> set (out_Uploads page)" "complete e" "recordOf bucket e v"
      using pageRecords_entries by blast
    from e(4) have "Size v = 0 \<and> StorageClass v \<noteq> [] \<and> Bucket v = Name bucket
        \<and> Region v = b_Region bucket"
      by (auto simp: recordOf_def)
    with e show ?thesis by blast
  qed
  with c s u show "\<exists>client pages. regional (b_Region bucket) = Inr client
              \<and> served client bucket opts [] None None pages
              \<and> uploads = concat (map (pageRecords bucket) pages)
              \<and> (\<forall>u \<in> set uploads.
                    Size u = 0 \<and> StorageClass u \<noteq> [] \<and> Bucket u = Name bucket
                    \<and> Region u = b_Region bucket
                    \<and> (\<exists>page \<in> set pages. \<exists>e \<in> set (out_Uploads page).
                          complete e \<and> recordOf bucket e u))"
    by blast
qed

text \<open>
  Two pages with three incomplete entries among five: the listing returns the two
  records of the complete entries, and no error.
\<close>

theorem listing_records_witness:
  "pagedRegional (b_Region bucketA) = Inr pagedClient
   \<and> served pagedClient bucketA noOptions [] None None [firstPage, secondPage]
   \<and> length [firstPage, secondPage] < (3::nat)
   \<and> length (filter (\<lambda>e. \<not> complete e) (out_Uploads firstPage @ out_Uploads secondPage)) = 3
   \<and> concat (map (pageRecords bucketA) [firstPage, secondPage]) = pagedUploads
   \<and> listUploadsForBucket 3 pagedRegional bucketA noOptions = Some (Inr pagedUploads)"
proof -
  have r: "pagedRegional (b_Region bucketA) = Inr pagedClient" by (simp add: pagedRegional_def)
  have p1: "pageRecords bucketA firstPage = [hd pagedUploads]"
    by (simp add: pageRecords_def firstPage_def complete_def entryRecord_def bucketA_def
          pagedUploads_def)
  have p2: "pageRecords bucketA secondPage = [last pagedUploads]"
    by (simp add: pageRecords_def secondPage_def complete_def entryRecord_def bucketA_def
          pagedUploads_def)
  have t1: "IsTruncated firstPage = Some True"
    "NextKeyMarker firstPage = Some ''k3''" "NextUploadIdMarker firstPage = Some ''id3''"
    by (simp_all add: firstPage_def)
  have t2: "IsTruncated secondPage \<noteq> Some True" by (simp add: secondPage_def)
  have s: "served pagedClient bucketA noOptions [] None None [firstPage, secondPage]"
    by (simp add: p1 t1 t2 capReached_def listRequest_def noOptions_def pagedClient_def)
  have l: "length [firstPage, secondPage] < (3::nat)" by simp
  have n: "length (filter (\<lambda>e. \<not> complete e) (out_Uploads firstPage @ out_Uploads secondPage)) = 3"
    by (simp add: firstPage_def secondPage_def complete_def)
  have c: "concat (map (pageRecords bucketA) [firstPage, secondPage]) = pagedUploads"
    by (simp add: p1 p2) (simp add: pagedUploads_def)
  note t = listing_records [of pagedRegional bucketA pagedClient noOptions
         "[firstPage, secondPage]" 3 pagedUploads, THEN conjunct1, rule_format,
         OF conjI [OF r conjI [OF s l]]]
  then have "listUploadsForBucket 3 pagedRegional bucketA noOptions = Some (Inr pagedUploads)"
    unfolding c .
  with r s l n c show ?thesis by blast
qed

text \<open>
  The claim as stated fails: the remote answers with an entry whose key is present and
  empty, and the listing returns a record with an empty key.
\<close>

theorem listing_empty_key_counterexample:
  "listUploadsForBucket 1 emptyKeyRegional bucketA noOptions = Some (Inr [emptyKeyUpload])
   \<and> emptyKeyUpload \<in> set [emptyKeyUpload] \<and> Key emptyKeyUpload = []"
  by (simp add: listUploadsForBucket_def emptyKeyRegional_def emptyKeyClient_def bucketA_def
        noOptions_def emptyKeyUpload_def capReached_def listRequest_def)


subsection \<open>Retry\<close>

lemma slowDown_retryable: "isRetryableError (Some slowDown)"
  by (simp add: isRetryableError_def slowDown_def retryableErrors_def contains_def containsSubstring_def)

lemma retryLoop_retry:
  assumes "attempt < MaxRetries cfg" and "limiterWait env (nat attempt) = None"
      and "operation env (nat attempt) = Some e" and "isRetryableError (Some e)"
      and "\<not> ctxDone env (nat attempt)"
  shows "retryLoop cfg env attempt l c s =
           retryLoop cfg env (attempt + 1) (Some e) (Suc c) (s @ [calculateBackoffDelay (floatDelay env) cfg attempt])"
  using assms by (subst retryLoop.simps) simp

lemma retryLoop_last:
  assumes "attempt = MaxRetries cfg" and "limiterWait env (nat attempt) = None"
      and "operation env (nat attempt) = Some e"
  shows "retryLoop cfg env attempt l c s =
           \<lparr> rr_error = Some (RetriesExhausted (MaxRetries cfg) (Some (Sdk e))),
             rr_calls = Suc c, rr_sleeps = s \<rparr>"
  using assms by (subst retryLoop.simps) simp

lemma default_delays:
  "calculateBackoffDelay fd DefaultRetryConfig 0 = 100 * Millisecond"
  "calculateBackoffDelay fd DefaultRetryConfig 1 = 200 * Millisecond"
  "calculateBackoffDelay fd DefaultRetryConfig 2 = 400 * Millisecond"
  by (simp_all add: calculateBackoffDelay_def DefaultRetryConfig_def truncRat_def exactFloat_def
        Millisecond_def Second_def Let_def)

lemma default_max: "MaxRetries DefaultRetryConfig = 3"
  by (simp add: DefaultRetryConfig_def)

text \<open>
  Claim C3, as amended. With the default retry configuration, an operation that returns
  a retryable error at every call (the rate limiter admitting every call and the context
  never done) is called exactly 4 times, 1 initial call and 3 retries, before the error
  that wraps the last failure and the retry count 3 is returned; the sleeps are 100 ms,
  200 ms and 400 ms, so the third backoff sleep is \<open>min(400ms, 30s)\<close>.
\<close>

theorem retry_default_exhausts:
  assumes "\<forall>i. limiterWait env i = None" and "\<forall>i. \<not> ctxDone env i"
      and "\<forall>i. \<exists>e. operation env i = Some e \<and> isRetryableError (Some e)"
  shows "\<exists>e. operation env 3 = Some e
       \<and> executeWithRetry DefaultRetryConfig env =
           \<lparr> rr_error = Some (RetriesExhausted 3 (Some (Sdk e))), rr_calls = 4,
             rr_sleeps = [100 * Millisecond, 200 * Millisecond, 400 * Millisecond] \<rparr>
       \<and> rr_sleeps (executeWithRetry DefaultRetryConfig env) ! 2 = min (400 * Millisecond) (30 * Second)"
proof -
  from assms(3) obtain e0 e1 e2 e3 where
    e: "operation env (nat 0) = Some e0" "isRetryableError (Some e0)"
       "operation env (nat 1) = Some e1" "isRetryableError (Some e1)"
       "operation env (nat 2) = Some e2" "isRetryableError (Some e2)"
       "operation env (nat 3) = Some e3"
    by metis
  note m = default_max
  have s0: "retryLoop DefaultRetryConfig env 0 None 0 [] =
            retryLoop DefaultRetryConfig env 1 (Some e0) (Suc 0) [100 * Millisecond]"
    using retryLoop_retry [of 0 DefaultRetryConfig env e0 None 0 "[]"] assms(1,2) e
    by (simp add: m default_delays)
  have s1: "retryLoop DefaultRetryConfig env 1 (Some e0) (Suc 0) [100 * Millisecond] =
            retryLoop DefaultRetryConfig env 2 (Some e1) (Suc (Suc 0))
              [100 * Millisecond, 200 * Millisecond]"
    using retryLoop_retry [of 1 DefaultRetryConfig env e1 "Some e0" "Suc 0" "[100 * Millisecond]"]
      assms(1,2) e
    by (simp add: m default_delays)
  have s2: "retryLoop DefaultRetryConfig env 2 (Some e1) (Suc (Suc 0))
              [100 * Millisecond, 200 * Millisecond] =
            retryLoop DefaultRetryConfig env 3 (Some e2) (Suc (Suc (Suc 0)))
              [100 * Millisecond, 200 * Millisecond, 400 * Millisecond]"
    using retryLoop_retry [of 2 DefaultRetryConfig env e2 "Some e1" "Suc (Suc 0)"
            "[100 * Millisecond, 200 * Millisecond]"] assms(1,2) e
    by (simp add: m default_delays)
  have s3: "retryLoop DefaultRetryConfig env 3 (Some e2) (Suc (Suc (Suc 0)))
              [100 * Millisecond, 200 * Millisecond, 400 * Millisecond] =
            \<lparr> rr_error = Some (RetriesExhausted 3 (Some (Sdk e3))), rr_calls = 4,
              rr_sleeps = [100 * Millisecond, 200 * Millisecond, 400 * Millisecond] \<rparr>"
    using retryLoop_last [of 3 DefaultRetryConfig env e3 "Some e2" "Suc (Suc (Suc 0))"
            "[100 * Millisecond, 200 * Millisecond, 400 * Millisecond]"] assms(1) e
    by (simp add: m)
  have r: "executeWithRetry DefaultRetryConfig env =
      \<lparr> rr_error = Some (RetriesExhausted 3 (Some (Sdk e3))), rr_calls = 4,
        rr_sleeps = [100 * Millisecond, 200 * Millisecond, 400 * Millisecond] \<rparr>"
    unfolding executeWithRetry_def by (simp only: s0 s1 s2 s3)
  have "rr_sleeps (executeWithRetry DefaultRetryConfig env) ! 2 = min (400 * Millisecond) (30 * Second)"
    by (simp add: r Millisecond_def Second_def)
  with r e(7) show ?thesis by auto
qed

theorem retry_default_exhausts_witness:
  "(\<forall>i. limiterWait alwaysSlowDown i = None) \<and> (\<forall>i. \<not> ctxDone alwaysSlowDown i)
   \<and> (\<forall>i. \<exists>e. operation alwaysSlowDown i = Some e \<and> isRetryableError (Some e))
   \<and> executeWithRetry DefaultRetryConfig alwaysSlowDown =
        \<lparr> rr_error = Some (RetriesExhausted 3 (Some (Sdk slowDown))), rr_calls = 4,
          rr_sleeps = [100 * Millisecond, 200 * Millisecond, 400 * Millisecond] \<rparr>"
proof -
  have h1: "\<forall>i. limiterWait alwaysSlowDown i = None" by (simp add: alwaysSlowDown_def)
  have h2: "\<forall>i. \<not> ctxDone alwaysSlowDown i" by (simp add: alwaysSlowDown_def)
  have h3: "\<forall>i. \<exists>e. operation alwaysSlowDown i = Some e \<and> isRetryableError (Some e)"
    by (simp add: alwaysSlowDown_def slowDown_retryable)
  have o: "operation alwaysSlowDown 3 = Some slowDown" by (simp add: alwaysSlowDown_def)
  from retry_default_exhausts [OF h1 h2 h3] o h1 h2 h3 show ?thesis by auto
qed

text \<open>
  The claim as stated fails: the third sleep is 400 ms, not \<open>min(800ms, 30s)\<close>.
\<close>

theorem retry_third_backoff_counterexample:
  "rr_calls (executeWithRetry DefaultRetryConfig alwaysSlowDown) = 4
   \<and> rr_sleeps (executeWithRetry DefaultRetryConfig alwaysSlowDown) ! 2 = 400 * Millisecond
   \<and> rr_sleeps (executeWithRetry DefaultRetryConfig alwaysSlowDown) ! 2
       \<noteq> min (800 * Millisecond) (30 * Second)"
proof -
  have "executeWithRetry DefaultRetryConfig alwaysSlowDown =
        \<lparr> rr_error = Some (RetriesExhausted 3 (Some (Sdk slowDown))), rr_calls = 4,
          rr_sleeps = [100 * Millisecond, 200 * Millisecond, 400 * Millisecond] \<rparr>"
    unfolding executeWithRetry_def
    by (simp add: retryLoop.simps [of _ _ 0] retryLoop.simps [of _ _ 1] retryLoop.simps [of _ _ 2]
          retryLoop.simps [of _ _ 3] alwaysSlowDown_def slowDown_retryable default_delays
          default_max)
  then show ?thesis by (simp add: Millisecond_def Second_def)
qed


subsection \<open>Region cache\<close>

lemma cacheHit_Some:
  "cacheHit s now b = Some r \<longleftrightarrow>
     (\<exists>t. regionCache s b = Some r \<and> cacheTime s b = Some t \<and> Since now t < cacheExpiry s)"
  by (auto simp: cacheHit_def split: option.splits)

lemma GetBucketRegion_hit:
  assumes "regionCache s b = Some r" and "cacheTime s b = Some t" and "Since now t < cacheExpiry s"
  shows "GetBucketRegion s location now stored b =
           \<lparr> gr_result = Inr r, gr_service = s, gr_remoteCalls = [] \<rparr>"
  using assms by (simp add: GetBucketRegion_def cacheHit_def)

lemma GetBucketRegion_expired:
  assumes "regionCache s b = Some r" and "cacheTime s b = Some t" and "\<not> Since now t < cacheExpiry s"
  shows "GetBucketRegion s location now stored b =
           (case location b of
              Inl err \<Rightarrow> \<lparr> gr_result = Inl (Wrap (''failed to get bucket location for '' @ b) err),
                            gr_service = s, gr_remoteCalls = [b] \<rparr>
            | Inr loc \<Rightarrow>
                \<lparr> gr_result = Inr (if loc \<noteq> [] then loc else ''us-east-1''),
                  gr_service = s \<lparr> regionCache := (regionCache s)(b \<mapsto> (if loc \<noteq> [] then loc else ''us-east-1'')),
                                    cacheTime := (cacheTime s)(b \<mapsto> stored) \<rparr>,
                  gr_remoteCalls = [b] \<rparr>)"
  using assms by (simp add: GetBucketRegion_def cacheHit_def Let_def split: sum.splits)

lemma GetBucketRegion_success:
  assumes "gr_result (GetBucketRegion s location now stored b) = Inr region"
  shows "\<exists>t. regionCache (gr_service (GetBucketRegion s location now stored b)) b = Some region
           \<and> cacheTime (gr_service (GetBucketRegion s location now stored b)) b = Some t
           \<and> cacheExpiry (gr_service (GetBucketRegion s location now stored b)) = cacheExpiry s"
proof (cases "cacheHit s now b")
  case None
  with assms show ?thesis
    by (cases "location b") (auto simp: GetBucketRegion_def Let_def)
next
  case (Some r)
  then obtain t where "regionCache s b = Some r" "cacheTime s b = Some t"
    by (auto simp: cacheHit_Some)
  with Some assms show ?thesis by (simp add: GetBucketRegion_def)
qed

lemma GetBucketRegion_expiry:
  "cacheExpiry (gr_service (GetBucketRegion s location now stored b')) = cacheExpiry s"
  by (auto simp: GetBucketRegion_def Let_def split: option.splits sum.splits)

lemma GetBucketRegion_other:
  assumes "b' \<noteq> b"
  shows "regionCache (gr_service (GetBucketRegion s location now stored b')) b = regionCache s b"
    and "cacheTime (gr_service (GetBucketRegion s location now stored b')) b = cacheTime s b"
  using assms
  by (auto simp: GetBucketRegion_def Let_def split: option.splits sum.splits)

text \<open>
  Claim C7. After one successful resolution of a bucket by a service whose expiry is one
  hour, the cache holds the region and a timestamp for the bucket, and it keeps them
  through the calls for other buckets. In every state that holds them, a call at which
  the age of the entry is under one hour returns the cached region, calls the remote for
  no bucket and leaves the service as it is; a call at which the age has reached one
  hour calls the remote once for the bucket and, when the remote answers, returns the
  fresh region and stores it with the new timestamp.
\<close>

theorem region_cache_reuse:
  assumes "gr_result (GetBucketRegion s0 location0 now0 stored0 b) = Inr region"
      and "cacheExpiry s0 = Hour"
  shows "\<exists>t. cached (gr_service (GetBucketRegion s0 location0 now0 stored0 b)) b region t
       \<and> (\<forall>s location now stored. cached s b region t \<and> Since now t < Hour \<longrightarrow>
             GetBucketRegion s location now stored b =
               \<lparr> gr_result = Inr region, gr_service = s, gr_remoteCalls = [] \<rparr>)
       \<and> (\<forall>s location now stored b'. cached s b region t \<and> b' \<noteq> b \<longrightarrow>
             cached (gr_service (GetBucketRegion s location now stored b')) b region t)
       \<and> (\<forall>s location now stored. cached s b region t \<and> \<not> Since now t < Hour \<longrightarrow>
             gr_remoteCalls (GetBucketRegion s location now stored b) = [b]
             \<and> (\<forall>loc. location b = Inr loc \<longrightarrow>
                  gr_result (GetBucketRegion s location now stored b)
                    = Inr (if loc \<noteq> [] then loc else ''us-east-1'')
                  \<and> cached (gr_service (GetBucketRegion s location now stored b)) b
                       (if loc \<noteq> [] then loc else ''us-east-1'') stored))"
proof -
  from GetBucketRegion_success [OF assms(1)] assms(2)
  obtain t where t: "cached (gr_service (GetBucketRegion s0 location0 now0 stored0 b)) b region t"
    by (auto simp: cached_def)
  have hit: "GetBucketRegion s location now stored b =
               \<lparr> gr_result = Inr region, gr_service = s, gr_remoteCalls = [] \<rparr>"
    if "cached s b region t \<and> Since now t < Hour" for s location now stored
    using that by (simp add: cached_def GetBucketRegion_hit)
  have other: "cached (gr_service (GetBucketRegion s location now stored b')) b region t"
    if "cached s b region t \<and> b' \<noteq> b" for s location now stored b'
    using that by (simp add: cached_def GetBucketRegion_other GetBucketRegion_expiry)
  have miss: "gr_remoteCalls (GetBucketRegion s location now stored b) = [b]
             \<and> (\<forall>loc. location b = Inr loc \<longrightarrow>
                  gr_result (GetBucketRegion s location now stored b)
                    = Inr (if loc \<noteq> [] then loc else ''us-east-1'')
                  \<and> cached (gr_service (GetBucketRegion s location now stored b)) b
                       (if loc \<noteq> [] then loc else ''us-east-1'') stored)"
    if "cached s b region t \<and> \<not> Since now t < Hour" for s location now stored
  proof -
    from that have c: "regionCache s b = Some region" "cacheTime s b = Some t"
      "\<not> Since now t < cacheExpiry s" "cacheExpiry s = Hour"
      by (simp_all add: cached_def)
    from GetBucketRegion_expired [OF c(1-3), of location stored] c(4)
    show ?thesis by (cases "location b") (simp_all add: cached_def)
  qed
  from t hit other miss show ?thesis by blast
qed

theorem region_cache_reuse_witness:
  "gr_result (GetBucketRegion NewBucketService exampleLocation 1000 1001 ''a'') = Inr ''eu-west-1''
   \<and> cacheExpiry NewBucketService = Hour
   \<and> cached warmService ''a'' ''eu-west-1'' 1001
   \<and> Since (1000 + Hour) 1001 < Hour
   \<and> GetBucketRegion warmService movedLocation (1000 + Hour) (1002 + Hour) ''a''
        = \<lparr> gr_result = Inr ''eu-west-1'', gr_service = warmService, gr_remoteCalls = [] \<rparr>
   \<and> \<not> Since (1001 + Hour) 1001 < Hour
   \<and> gr_remoteCalls (GetBucketRegion warmService movedLocation (1001 + Hour) (1002 + Hour) ''a'') = [''a'']
   \<and> gr_result (GetBucketRegion warmService movedLocation (1001 + Hour) (1002 + Hour) ''a'')
        = Inr ''us-east-1''
   \<and> cached (gr_service (GetBucketRegion warmService movedLocation (1001 + Hour) (1002 + Hour) ''a''))
        ''a'' ''us-east-1'' (1002 + Hour)"
proof -
  have h1: "gr_result (GetBucketRegion NewBucketService exampleLocation 1000 1001 ''a'') = Inr ''eu-west-1''"
    by (simp add: GetBucketRegion_def cacheHit_def NewBucketService_def exampleLocation_def Let_def)
  have h2: "cacheExpiry NewBucketService = Hour" by (simp add: NewBucketService_def)
  have c: "cached warmService ''a'' ''eu-west-1'' 1001"
    by (simp add: cached_def warmService_def GetBucketRegion_def cacheHit_def NewBucketService_def
          exampleLocation_def Let_def)
  have a: "Since (1000 + Hour) 1001 < Hour" "\<not> Since (1001 + Hour) 1001 < Hour"
    by (simp_all add: Since_def Hour_def minDuration_def maxDuration_def)
  have m: "movedLocation ''a'' = Inr []" by (simp add: movedLocation_def)
  from region_cache_reuse [OF h1 h2, folded warmService_def] show ?thesis
  proof (elim exE conjE)
    fix t
    assume t: "cached warmService ''a'' ''eu-west-1'' t"
      and hit: "\<forall>s location now stored. cached s ''a'' ''eu-west-1'' t \<and> Since now t < Hour \<longrightarrow>
             GetBucketRegion s location now stored ''a'' =
               \<lparr> gr_result = Inr ''eu-west-1'', gr_service = s, gr_remoteCalls = [] \<rparr>"
      and miss: "\<forall>s location now stored. cached s ''a'' ''eu-west-1'' t \<and> \<not> Since now t < Hour \<longrightarrow>
             gr_remoteCalls (GetBucketRegion s location now stored ''a'') = [''a'']
             \<and> (\<forall>loc. location ''a'' = Inr loc \<longrightarrow>
                  gr_result (GetBucketRegion s location now stored ''a'')
                    = Inr (if loc \<noteq> [] then loc else ''us-east-1'')
                  \<and> cached (gr_service (GetBucketRegion s location now stored ''a'')) ''a''
                       (if loc \<noteq> [] then loc else ''us-east-1'') stored)"
    from t c have t1: "t = 1001" by (simp add: cached_def)
    from hit [rule_format, of warmService "1000 + Hour" movedLocation "1002 + Hour"] c a(1) t1
    have r1: "GetBucketRegion warmService movedLocation (1000 + Hour) (1002 + Hour) ''a''
          = \<lparr> gr_result = Inr ''eu-west-1'', gr_service = warmService, gr_remoteCalls = [] \<rparr>"
      by simp
    from miss [rule_format, of warmService "1001 + Hour" movedLocation "1002 + Hour"] c a(2) t1
    have r2: "gr_remoteCalls (GetBucketRegion warmService movedLocation (1001 + Hour) (1002 + Hour) ''a'')
                = [''a'']"
      by simp
    from miss [rule_format, of warmService "1001 + Hour" movedLocation "1002 + Hour"] c a(2) t1 m
    have r3: "gr_result (GetBucketRegion warmService movedLocation (1001 + Hour) (1002 + Hour) ''a'')
          = Inr ''us-east-1''"
      "cached (gr_service (GetBucketRegion warmService movedLocation (1001 + Hour) (1002 + Hour) ''a''))
          ''a'' ''us-east-1'' (1002 + Hour)"
      by simp_all
    from h1 h2 c a r1 r2 r3 show ?thesis by blast
  qed
qed


subsection \<open>Sizes of a batch\<close>

lemma collectSizes_inv:
  assumes "\<And>b. m b \<longleftrightarrow> b \<in> set inacc" and "distinct inacc"
  shows "\<exists>inacc' errs'.
           collectSizes (map (sizeWorker G) us) acc inacc errs m
             = (acc @ concat (map (sizedRecord G) us), inacc', errs')
         \<and> distinct inacc'
         \<and> set inacc' = set inacc \<union> {Bucket u |u. u \<in> set us \<and> sizeFailed G u \<and> Bucket u \<noteq> []}
         \<and> length errs' = length errs + length (filter (sizeFailed G) us)"
  using assms
proof (induction us arbitrary: acc inacc errs m)
  case Nil
  then show ?case by simp
next
  case (Cons u us)
  let ?F = "\<lambda>vs. {Bucket v |v. v \<in> set vs \<and> sizeFailed G v \<and> Bucket v \<noteq> []}"
  show ?case
  proof (cases "G u")
    case (Inr sz)
    have w: "sizeWorker G u = \<lparr> ur_upload = u \<lparr> Size := sz \<rparr>, ur_err = None, ur_inaccessibleBucket = [] \<rparr>"
      by (simp add: sizeWorker_def Inr)
    from Cons.IH [OF Cons.prems, of "acc @ [u \<lparr> Size := sz \<rparr>]" errs]
    obtain inacc' errs' where
      c: "collectSizes (map (sizeWorker G) us) (acc @ [u \<lparr> Size := sz \<rparr>]) inacc errs m
            = ((acc @ [u \<lparr> Size := sz \<rparr>]) @ concat (map (sizedRecord G) us), inacc', errs')"
      and d: "distinct inacc'" and s: "set inacc' = set inacc \<union> ?F us"
      and l: "length errs' = length errs + length (filter (sizeFailed G) us)"
      by blast
    have u: "sizedRecord G u = [u \<lparr> Size := sz \<rparr>]" "\<not> sizeFailed G u"
      by (simp_all add: sizedRecord_def sizeFailed_def Inr)
    have "collectSizes (map (sizeWorker G) (u # us)) acc inacc errs m
            = (acc @ concat (map (sizedRecord G) (u # us)), inacc', errs')"
      using c by (simp add: w u)
    moreover have "?F (u # us) = ?F us" using u(2) by auto
    moreover have "length (filter (sizeFailed G) (u # us)) = length (filter (sizeFailed G) us)"
      using u(2) by simp
    ultimately show ?thesis using d s l by auto
  next
    case (Inl err)
    have w: "sizeWorker G u = \<lparr> ur_upload = u, ur_err = Some err, ur_inaccessibleBucket = Bucket u \<rparr>"
      by (simp add: sizeWorker_def Inl)
    have u: "sizedRecord G u = []" "sizeFailed G u"
      by (simp_all add: sizedRecord_def sizeFailed_def Inl)
    have len: "length (filter (sizeFailed G) (u # us)) = Suc (length (filter (sizeFailed G) us))"
      using u(2) by simp
    show ?thesis
    proof (cases "Bucket u \<noteq> [] \<and> \<not> m (Bucket u)")
      case True
      have m': "\<And>b. (m (Bucket u := True)) b \<longleftrightarrow> b \<in> set (inacc @ [Bucket u])"
        using Cons.prems(1) by auto
      have d': "distinct (inacc @ [Bucket u])"
        using Cons.prems True by auto
      from Cons.IH [OF m' d', of acc "errs @ [err]"]
      obtain inacc' errs' where
        c: "collectSizes (map (sizeWorker G) us) acc (inacc @ [Bucket u]) (errs @ [err])
              (m (Bucket u := True)) = (acc @ concat (map (sizedRecord G) us), inacc', errs')"
        and d: "distinct inacc'" and s: "set inacc' = set (inacc @ [Bucket u]) \<union> ?F us"
        and l: "length errs' = length (errs @ [err]) + length (filter (sizeFailed G) us)"
        by blast
      have "collectSizes (map (sizeWorker G) (u # us)) acc inacc errs m
              = (acc @ concat (map (sizedRecord G) (u # us)), inacc', errs')"
        using c True by (simp add: w u)
      moreover have "?F (u # us) = insert (Bucket u) (?F us)" using u(2) True by auto
      ultimately show ?thesis using d s l len by auto
    next
      case False
      from Cons.IH [OF Cons.prems, of acc "errs @ [err]"]
      obtain inacc' errs' where
        c: "collectSizes (map (sizeWorker G) us) acc inacc (errs @ [err]) m
              = (acc @ concat (map (sizedRecord G) us), inacc', errs')"
        and d: "distinct inacc'" and s: "set inacc' = set inacc \<union> ?F us"
        and l: "length errs' = length (errs @ [err]) + length (filter (sizeFailed G) us)"
        by blast
      have "collectSizes (map (sizeWorker G) (u # us)) acc inacc errs m
              = (acc @ concat (map (sizedRecord G) (u # us)), inacc', errs')"
        using c False by (auto simp: w u)
      moreover have "set inacc \<union> ?F (u # us) = set inacc \<union> ?F us"
        using u(2) False Cons.prems(1) by auto
      ultimately show ?thesis using d s l len by auto
    qed
  qed
qed

text \<open>
  Claim C5. Whatever the order in which the results arrive, the batch returns a nil
  error. The records returned are the records whose size lookup succeeded, each with
  its size filled in: a record whose lookup fails is dropped. The list of inaccessible
  buckets has no duplicate and holds exactly the non-empty bucket names of the records
  whose lookup failed.
\<close>

theorem size_batch_partial_result:
  assumes "mset arrival = mset uploads"
  shows "\<exists>sized inaccessible.
           calculateUploadSizes GetUploadSize arrival = (sized, inaccessible, None)
         \<and> sized = concat (map (sizedRecord GetUploadSize) arrival)
         \<and> mset sized = (\<Sum>u\<in>#mset uploads. mset (sizedRecord GetUploadSize u))
         \<and> distinct inaccessible
         \<and> set inaccessible
             = {Bucket u |u. u \<in> set uploads \<and> sizeFailed GetUploadSize u \<and> Bucket u \<noteq> []}"
proof (cases "arrival = []")
  case True
  with assms show ?thesis by (simp add: calculateUploadSizes_def)
next
  case False
  have "\<And>b. (\<lambda>b. False) b \<longleftrightarrow> b \<in> set ([]::string list)" by simp
  from collectSizes_inv [OF this, of GetUploadSize arrival "[]" "[]"]
  obtain inacc errs where
    c: "collectSizes (map (sizeWorker GetUploadSize) arrival) [] [] [] (\<lambda>b. False)
          = (concat (map (sizedRecord GetUploadSize) arrival), inacc, errs)"
    and d: "distinct inacc"
    and s: "set inacc = {Bucket u |u. u \<in> set arrival \<and> sizeFailed GetUploadSize u \<and> Bucket u \<noteq> []}"
    by auto
  have ms: "mset (concat (map (sizedRecord GetUploadSize) arrival))
              = (\<Sum>u\<in>#mset arrival. mset (sizedRecord GetUploadSize u))"
    by (induction arrival) simp_all
  from assms have "set arrival = set uploads" by (rule mset_eq_setD)
  with False c d s ms assms show ?thesis
    by (simp add: calculateUploadSizes_def)
qed


theorem size_batch_partial_result_witness:
  "mset [secondOf bucketB, uploadOf bucketA, uploadOf bucketB]
     = mset [uploadOf bucketA, uploadOf bucketB, secondOf bucketB]
   \<and> (\<exists>inaccessible.
        calculateUploadSizes exampleGetUploadSize [secondOf bucketB, uploadOf bucketA, uploadOf bucketB]
          = ([(uploadOf bucketA) \<lparr> Size := 1024 \<rparr>], inaccessible, None)
        \<and> distinct inaccessible \<and> set inaccessible = {''b''})"
proof -
  have h: "mset [secondOf bucketB, uploadOf bucketA, uploadOf bucketB]
     = mset [uploadOf bucketA, uploadOf bucketB, secondOf bucketB]"
    by simp
  have b: "Bucket (uploadOf bucketA) = ''a''" "Bucket (uploadOf bucketB) = ''b''"
    "Bucket (secondOf bucketB) = ''b''"
    by (simp_all add: uploadOf_def secondOf_def bucketA_def bucketB_def)
  have s: "sizedRecord exampleGetUploadSize (uploadOf bucketA) = [(uploadOf bucketA) \<lparr> Size := 1024 \<rparr>]"
    "sizedRecord exampleGetUploadSize (uploadOf bucketB) = []"
    "sizedRecord exampleGetUploadSize (secondOf bucketB) = []"
    by (simp_all add: sizedRecord_def exampleGetUploadSize_def b)
  have f: "\<not> sizeFailed exampleGetUploadSize (uploadOf bucketA)"
    "sizeFailed exampleGetUploadSize (uploadOf bucketB)"
    "sizeFailed exampleGetUploadSize (secondOf bucketB)"
    by (simp_all add: sizeFailed_def exampleGetUploadSize_def b)
  have "{Bucket u |u. u \<in> set [uploadOf bucketA, uploadOf bucketB, secondOf bucketB]
           \<and> sizeFailed exampleGetUploadSize u \<and> Bucket u \<noteq> []} = {''b''}"
    using b f by (auto intro: exI [of _ "uploadOf bucketB"])
  with size_batch_partial_result [OF h, of exampleGetUploadSize] s h show ?thesis
    by auto
qed

subsection \<open>Deletion\<close>

lemma threeUploads_valid:
  "MultipartUpload_Validate (uploadOf bucketA) = None"
  "MultipartUpload_Validate (uploadOf bucketB) = None"
  "MultipartUpload_Validate (uploadOf bucketC) = None"
  by (simp_all add: MultipartUpload_Validate_def uploadOf_def bucketA_def bucketB_def bucketC_def
        TrimSpace_ascii IsZero_def zeroTime_def)

lemma TrimSpace_blank:
  "TrimSpace [CHR 0xC2, CHR 0xA0] = []" "TrimSpace '' '' = []"
  by (simp_all add: TrimSpace_def unicodeSpaces_def isSpace_def trimLeft_Nil
        trimLeft.simps [of _ "[CHR 0xC2, CHR 0xA0]"] trimLeft.simps [of _ "'' ''"])

lemma blank_keys_invalid:
  "MultipartUpload_Validate emptyKeyUpload = Some (ValidationError ''Key'' ''key cannot be empty'')"
  "MultipartUpload_Validate blankKeyUpload = Some (ValidationError ''Key'' ''key cannot be empty'')"
  "MultipartUpload_Validate ((uploadOf bucketA) \<lparr> Key := '' '' \<rparr>)
     = Some (ValidationError ''Key'' ''key cannot be empty'')"
  by (simp_all add: MultipartUpload_Validate_def emptyKeyUpload_def blankKeyUpload_def uploadOf_def
        bucketA_def TrimSpace_ascii TrimSpace_Nil TrimSpace_blank)

lemma filterUploadsForDeletion_eq:
  "filterUploadsForDeletion now uploads opts = filter (selected now opts) uploads"
  by (induction uploads) (auto simp: selected_def split: option.splits)

lemma filter_no_selector:
  "filter (selected now dryRunOptions) uploads = uploads"
  "filter (selected now forceOptions) uploads = uploads"
  by (simp_all add: selected_def dryRunOptions_def forceOptions_def)

lemma Since_mono: "now \<le> now' \<Longrightarrow> Since now t \<le> Since now' t"
  by (simp add: Since_def minDuration_def maxDuration_def)

lemma selected_mono:
  assumes "now \<le> now'" and "selected now opts u"
  shows "selected now' opts u"
proof -
  from Since_mono [OF assms(1)] have "Since now (Initiated u) \<le> Since now' (Initiated u)" .
  with assms(2) show ?thesis by (auto simp: selected_def split: option.splits)
qed

lemma simulated_same:
  assumes "clock env \<le> dryRunClock env"
  shows "simulated env uploads opts = filter (selected (clock env) opts) uploads"
  unfolding simulated_def using selected_mono [OF assms]
  by (induction uploads) auto

lemma wrap64_add_left: "wrap64 (wrap64 a + b) = wrap64 (a + b)"
proof -
  have "wrap64 a + b + 9223372036854775808
      = (a + 9223372036854775808) mod 18446744073709551616 + b"
    by (simp add: wrap64_def)
  then have "(wrap64 a + b + 9223372036854775808) mod 18446744073709551616
      = ((a + 9223372036854775808) mod 18446744073709551616 + b) mod 18446744073709551616"
    by (rule arg_cong)
  also have "\<dots> = (a + 9223372036854775808 + b) mod 18446744073709551616"
    by (rule mod_add_left_eq)
  also have "a + 9223372036854775808 + b = a + b + 9223372036854775808" by simp
  finally show ?thesis unfolding wrap64_def [of "wrap64 a + b"] wrap64_def [of "a + b"] by simp
qed

lemma calculateTotalSize_eq:
  "calculateTotalSize uploads (wrap64 tot) = wrap64 (tot + sum_list (map Size uploads))"
proof (induction uploads arbitrary: tot)
  case Nil
  then show ?case by simp
next
  case (Cons u uploads)
  have "calculateTotalSize (u # uploads) (wrap64 tot)
      = calculateTotalSize uploads (wrap64 (tot + Size u))"
    by (simp add: wrap64_add_left)
  also have "\<dots> = wrap64 (tot + Size u + sum_list (map Size uploads))" by (rule Cons.IH)
  finally show ?case by (simp add: add.assoc)
qed

lemma calculateTotalSize_totalSize: "calculateTotalSize uploads 0 = totalSize uploads"
  using calculateTotalSize_eq [of uploads 0] by (simp add: totalSize_def wrap64_def)

lemma groupSum_eq:
  "groupSum key amount uploads m k =
     (if k \<in> key ` set uploads
      then Some (wrap64 ((case m k of None \<Rightarrow> 0 | Some v \<Rightarrow> v)
                   + sum_list (map amount (filter (\<lambda>u. key u = k) uploads))))
      else m k)"
proof (induction uploads arbitrary: m)
  case Nil
  then show ?case by simp
next
  case (Cons u uploads)
  have e: "filter (\<lambda>u. key u = k) uploads = []" if "k \<notin> key ` set uploads"
    using that by (auto simp: filter_empty_conv)
  show ?case
  proof (cases "key u = k")
    case True
    then show ?thesis
      by (simp add: Cons.IH addTo_def wrap64_add_left add.assoc e)
  next
    case False
    then show ?thesis by (simp add: Cons.IH addTo_def)
  qed
qed

lemma groupSum_count: "groupSum key (\<lambda>upload. 1) uploads Map.empty = countBy key uploads"
proof
  fix k
  have "sum_list (map (\<lambda>upload. 1) (filter (\<lambda>u. key u = k) uploads))
      = int (length (filter (\<lambda>u. key u = k) uploads))"
    by (induction uploads) simp_all
  then show "groupSum key (\<lambda>upload. 1) uploads Map.empty k = countBy key uploads k"
    by (simp add: groupSum_eq countBy_def)
qed

lemma groupSum_size: "groupSum key Size uploads Map.empty = sizeBy key uploads"
  by (rule ext) (simp add: groupSum_eq sizeBy_def totalSize_def)

lemma groupSavings_eq: "groupSavings EstimateSavings key uploads = savingsBy EstimateSavings key uploads"
  by (rule ext) (simp add: groupSavings_def savingsBy_def)

lemma SimulateDeletion_result:
  assumes "DeleteOptions_Validate opts = None"
  shows "SimulateDeletion f EstimateSavings now uploads opts =
     Inr \<lparr> TotalUploads = int (length (filter (selected now opts) uploads)),
           TotalSize = totalSize (filter (selected now opts) uploads),
           EstimatedSavings = (case EstimateSavings (filter (selected now opts) uploads) of
                                 Inl err \<Rightarrow> 0
                               | Inr savings \<Rightarrow> savings),
           Currency = ''USD'',
           UploadsByBucket = countBy Bucket (filter (selected now opts) uploads),
           SizeByBucket = sizeBy Bucket (filter (selected now opts) uploads),
           SavingsByBucket = savingsBy EstimateSavings Bucket (filter (selected now opts) uploads),
           UploadsByRegion = countBy Region (filter (selected now opts) uploads),
           SizeByRegion = sizeBy Region (filter (selected now opts) uploads),
           SavingsByRegion = savingsBy EstimateSavings Region (filter (selected now opts) uploads),
           UploadsByStorageClass = countBy StorageClass (filter (selected now opts) uploads),
           SizeByStorageClass = sizeBy StorageClass (filter (selected now opts) uploads),
           SavingsByStorageClass =
             savingsBy EstimateSavings StorageClass (filter (selected now opts) uploads),
           dr_Uploads = filter (selected now opts) uploads,
           GeneratedAt = now,
           Command = buildCommandString f opts,
           Filters = buildFilterString f opts \<rparr>"
  using assms
  by (simp add: SimulateDeletion_def Let_def filterUploadsForDeletion_eq calculateTotalSize_totalSize
        groupSum_count groupSum_size groupSavings_eq)

text \<open>
  Claim C1, as amended. For every list of uploads and every valid \<open>DeleteOptions\<close> with
  \<open>DryRun\<close> set whose selector keeps at least one record, \<open>DeleteUploads\<close> sends no
  request to the remote \<open>AbortMultipartUpload\<close>, returns a nil error, and puts out one
  report. When the service holds a dry-run service, the report is the result of its
  simulation on the records selected: their number and total size, the savings that the
  cost calculator estimates for them (0 when the calculator fails), and their number,
  size and savings by bucket, by region and by storage class. When the service holds no
  dry-run service, the report is the summary of the records selected and of their total
  size, with no savings. The simulation selects again at its own instant; when its clock
  is not behind, it selects the same records.
\<close>

theorem dry_run_no_mutation:
  assumes "DeleteOptions_Validate opts = None" and "DryRun opts"
      and "filter (selected (clock env) opts) uploads \<noteq> []"
  shows "dl_error (DeleteUploads env uploads opts) = None
       \<and> dl_aborts (DeleteUploads env uploads opts) = []
       \<and> (case dryRunService env of
            None \<Rightarrow>
              dl_output (DeleteUploads env uploads opts)
                = [ReportDryRunResults (filter (selected (clock env) opts) uploads)
                     (totalSize (filter (selected (clock env) opts) uploads))]
          | Some EstimateSavings \<Rightarrow>
              (\<exists>result. dl_output (DeleteUploads env uploads opts)
                           = [ReportDryRunResultsFromService result]
                 \<and> dr_Uploads result = simulated env uploads opts
                 \<and> TotalUploads result = int (length (simulated env uploads opts))
                 \<and> TotalSize result = totalSize (simulated env uploads opts)
                 \<and> EstimatedSavings result
                     = (case EstimateSavings (simulated env uploads opts) of
                          Inr savings \<Rightarrow> savings
                        | Inl err \<Rightarrow> 0)
                 \<and> Currency result = ''USD''
                 \<and> UploadsByBucket result = countBy Bucket (simulated env uploads opts)
                 \<and> SizeByBucket result = sizeBy Bucket (simulated env uploads opts)
                 \<and> SavingsByBucket result
                     = savingsBy EstimateSavings Bucket (simulated env uploads opts)
                 \<and> UploadsByRegion result = countBy Region (simulated env uploads opts)
                 \<and> SizeByRegion result = sizeBy Region (simulated env uploads opts)
                 \<and> SavingsByRegion result
                     = savingsBy EstimateSavings Region (simulated env uploads opts)
                 \<and> UploadsByStorageClass result = countBy StorageClass (simulated env uploads opts)
                 \<and> SizeByStorageClass result = sizeBy StorageClass (simulated env uploads opts)
                 \<and> SavingsByStorageClass result
                     = savingsBy EstimateSavings StorageClass (simulated env uploads opts)))
       \<and> (clock env \<le> dryRunClock env
            \<longrightarrow> simulated env uploads opts = filter (selected (clock env) opts) uploads)"
proof (cases "dryRunService env")
  case None
  with assms show ?thesis
    by (simp add: DeleteUploads_def Let_def filterUploadsForDeletion_eq calculateTotalSize_totalSize
          simulated_same)
next
  case (Some E)
  note r = SimulateDeletion_result [OF assms(1), of "fmt env" E "dryRunClock env"
             "filter (selected (clock env) opts) uploads", folded simulated_def]
  from assms Some show ?thesis
    by (simp add: DeleteUploads_def Let_def filterUploadsForDeletion_eq r simulated_same
          split: sum.splits)
qed

text \<open>
  Three records in two buckets, two regions and two storage classes, under a calculator
  that estimates a tenth of a dollar for every byte.
\<close>

theorem dry_run_no_mutation_witness:
  "DeleteOptions_Validate dryRunOptions = None \<and> DryRun dryRunOptions
   \<and> filter (selected (clock exampleEnv) dryRunOptions) sizedUploads \<noteq> []
   \<and> dl_error (DeleteUploads exampleEnv sizedUploads dryRunOptions) = None
   \<and> dl_aborts (DeleteUploads exampleEnv sizedUploads dryRunOptions) = []
   \<and> (\<exists>result. dl_output (DeleteUploads exampleEnv sizedUploads dryRunOptions)
                   = [ReportDryRunResultsFromService result]
          \<and> TotalUploads result = 3 \<and> TotalSize result = 22 \<and> EstimatedSavings result = 11 / 5
          \<and> UploadsByBucket result ''a'' = Some 2 \<and> SizeByBucket result ''a'' = Some 15
          \<and> SavingsByBucket result ''a'' = Some (3 / 2)
          \<and> UploadsByBucket result ''b'' = Some 1 \<and> SizeByBucket result ''b'' = Some 7
          \<and> SavingsByBucket result ''b'' = Some (7 / 10)
          \<and> UploadsByBucket result ''c'' = None
          \<and> UploadsByRegion result ''us-east-1'' = Some 2
          \<and> SizeByRegion result ''eu-west-1'' = Some 7
          \<and> SavingsByRegion result ''us-east-1'' = Some (3 / 2)
          \<and> UploadsByStorageClass result ''STANDARD'' = Some 2
          \<and> SizeByStorageClass result ''GLACIER'' = Some 7
          \<and> SavingsByStorageClass result ''GLACIER'' = Some (7 / 10))"
proof -
  have h1: "DeleteOptions_Validate dryRunOptions = None"
    by (simp add: DeleteOptions_Validate_def dryRunOptions_def)
  have h2: "DryRun dryRunOptions" by (simp add: dryRunOptions_def)
  have h3: "filter (selected (clock exampleEnv) dryRunOptions) sizedUploads \<noteq> []"
    by (simp add: filter_no_selector) (simp add: sizedUploads_def)
  have s: "dryRunService exampleEnv = Some exampleSavings" by (simp add: exampleEnv_def)
  have f: "simulated exampleEnv sizedUploads dryRunOptions = sizedUploads"
    by (simp add: simulated_def filter_no_selector)
  have k: "Bucket ` set sizedUploads = {''a'', ''b''}"
    "Region ` set sizedUploads = {''us-east-1'', ''eu-west-1''}"
    "StorageClass ` set sizedUploads = {''STANDARD'', ''GLACIER''}"
    by (auto simp: sizedUploads_def uploadOf_def secondOf_def bucketA_def bucketB_def)
  have g: "filter (\<lambda>u. Bucket u = ''a'') sizedUploads = take 2 sizedUploads"
    "filter (\<lambda>u. Bucket u = ''b'') sizedUploads = drop 2 sizedUploads"
    "filter (\<lambda>u. Region u = ''us-east-1'') sizedUploads = take 2 sizedUploads"
    "filter (\<lambda>u. Region u = ''eu-west-1'') sizedUploads = drop 2 sizedUploads"
    "filter (\<lambda>u. StorageClass u = ''STANDARD'') sizedUploads = take 2 sizedUploads"
    "filter (\<lambda>u. StorageClass u = ''GLACIER'') sizedUploads = drop 2 sizedUploads"
    by (simp_all add: sizedUploads_def uploadOf_def secondOf_def bucketA_def bucketB_def)
  have z: "map Size sizedUploads = [10, 5, 7]"
    "map Size (take 2 sizedUploads) = [10, 5]" "map Size (drop 2 sizedUploads) = [7]"
    "length sizedUploads = 3" "length (take 2 sizedUploads) = 2" "length (drop 2 sizedUploads) = 1"
    by (simp_all add: sizedUploads_def uploadOf_def secondOf_def)
  note v = countBy_def sizeBy_def savingsBy_def totalSize_def exampleSavings_def wrap64_def
  from dry_run_no_mutation [OF h1 h2 h3] obtain result where
    r: "dl_error (DeleteUploads exampleEnv sizedUploads dryRunOptions) = None"
       "dl_aborts (DeleteUploads exampleEnv sizedUploads dryRunOptions) = []"
       "dl_output (DeleteUploads exampleEnv sizedUploads dryRunOptions)
          = [ReportDryRunResultsFromService result]"
    and t: "TotalUploads result = int (length sizedUploads)"
       "TotalSize result = totalSize sizedUploads"
       "EstimatedSavings result = (case exampleSavings sizedUploads of Inr savings \<Rightarrow> savings | Inl err \<Rightarrow> 0)"
    and b: "UploadsByBucket result = countBy Bucket sizedUploads"
       "SizeByBucket result = sizeBy Bucket sizedUploads"
       "SavingsByBucket result = savingsBy exampleSavings Bucket sizedUploads"
    and g': "UploadsByRegion result = countBy Region sizedUploads"
       "SizeByRegion result = sizeBy Region sizedUploads"
       "SavingsByRegion result = savingsBy exampleSavings Region sizedUploads"
    and c: "UploadsByStorageClass result = countBy StorageClass sizedUploads"
       "SizeByStorageClass result = sizeBy StorageClass sizedUploads"
       "SavingsByStorageClass result = savingsBy exampleSavings StorageClass sizedUploads"
    unfolding s f option.case by blast
  have t': "TotalUploads result = 3" "TotalSize result = 22" "EstimatedSavings result = 11 / 5"
    by (simp_all add: t v z)
  have b': "UploadsByBucket result ''a'' = Some 2" "SizeByBucket result ''a'' = Some 15"
    "SavingsByBucket result ''a'' = Some (3 / 2)"
    "UploadsByBucket result ''b'' = Some 1" "SizeByBucket result ''b'' = Some 7"
    "SavingsByBucket result ''b'' = Some (7 / 10)"
    "UploadsByBucket result ''c'' = None"
    by (simp_all add: b v k g z)
  have g'': "UploadsByRegion result ''us-east-1'' = Some 2"
    "SizeByRegion result ''eu-west-1'' = Some 7"
    "SavingsByRegion result ''us-east-1'' = Some (3 / 2)"
    by (simp_all add: g' v k g z)
  have c': "UploadsByStorageClass result ''STANDARD'' = Some 2"
    "SizeByStorageClass result ''GLACIER'' = Some 7"
    "SavingsByStorageClass result ''GLACIER'' = Some (7 / 10)"
    by (simp_all add: c v k g z)
  from h1 h2 h3 r t' b' g'' c' show ?thesis by blast
qed

text \<open>
  The claim as stated fails where the service holds no dry-run service: the deletion
  is simulated, nothing is sent to the remote and nil is returned, but the report is the
  summary of the records and of their total size, and no savings are estimated.
\<close>

theorem dry_run_legacy_counterexample:
  "DeleteOptions_Validate dryRunOptions = None \<and> DryRun dryRunOptions
   \<and> filterUploadsForDeletion (clock legacyEnv) sizedUploads dryRunOptions = sizedUploads
   \<and> dryRunService legacyEnv = None
   \<and> DeleteUploads legacyEnv sizedUploads dryRunOptions
        = \<lparr> dl_error = None, dl_aborts = [], dl_output = [ReportDryRunResults sizedUploads 22] \<rparr>"
  by (simp add: DeleteUploads_def DeleteOptions_Validate_def dryRunOptions_def legacyEnv_def
        exampleEnv_def sizedUploads_def uploadOf_def secondOf_def Let_def wrap64_def)

lemma DeleteUpload_fails: "fst (DeleteUpload abort u) \<noteq> None \<longleftrightarrow> deleteFails abort u"
  by (auto simp: DeleteUpload_def deleteFails_def split: option.splits)

lemma DeleteUpload_calls:
  "snd (DeleteUpload abort u) = (if MultipartUpload_Validate u = None then [abortInput u] else [])"
  by (simp add: DeleteUpload_def split: option.splits)

lemma runWorkers_errors:
  "length (errors (runWorkers abort us st))
     = length (errors st) + length (filter (deleteFails abort) us)"
proof (induction us arbitrary: st)
  case Nil
  then show ?case by simp
next
  case (Cons u us)
  obtain err calls where d: "DeleteUpload abort u = (err, calls)" by (cases "DeleteUpload abort u")
  with DeleteUpload_fails [of abort u] show ?case by (cases err) (simp_all add: Cons.IH)
qed

lemma runWorkers_aborts:
  "abortCalls (runWorkers abort us st)
     = abortCalls st @ concat (map (\<lambda>u. snd (DeleteUpload abort u)) us)"
proof (induction us arbitrary: st)
  case Nil
  then show ?case by simp
next
  case (Cons u us)
  obtain err calls where d: "DeleteUpload abort u = (err, calls)" by (cases "DeleteUpload abort u")
  then show ?case by (cases err) (simp_all add: Cons.IH)
qed

lemma runWorkers_counts:
  "failedCount (runWorkers abort us st) = failedCount st + int (length (filter (deleteFails abort) us))
   \<and> successCount (runWorkers abort us st)
       = successCount st + int (length (filter (\<lambda>u. \<not> deleteFails abort u) us))
   \<and> processedCount (runWorkers abort us st) = processedCount st + int (length us)"
proof (induction us arbitrary: st)
  case Nil
  then show ?case by simp
next
  case (Cons u us)
  obtain err calls where d: "DeleteUpload abort u = (err, calls)" by (cases "DeleteUpload abort u")
  with DeleteUpload_fails [of abort u] show ?case by (cases err) (simp_all add: Cons.IH)
qed

lemma deleteUploadsWithProgress_result:
  assumes "arrival \<noteq> []"
  shows "dl_error (deleteUploadsWithProgress abort arrival)
           = (if length (filter (deleteFails abort) arrival) > 0
              then Some (DeleteFailed (int (length (filter (deleteFails abort) arrival)))
                           (int (length arrival)))
              else None)"
    and "dl_aborts (deleteUploadsWithProgress abort arrival)
           = concat (map (\<lambda>u. snd (DeleteUpload abort u)) arrival)"
  using assms
  by (simp_all add: deleteUploadsWithProgress_def Let_def runWorkers_errors runWorkers_aborts
        del: length_greater_0_conv)

lemma mset_abort_calls:
  "mset (concat (map (\<lambda>u. snd (DeleteUpload abort u)) us))
     = image_mset abortInput (filter_mset (\<lambda>u. MultipartUpload_Validate u = None) (mset us))"
  by (induction us) (simp_all add: DeleteUpload_calls)

lemma length_filter_mset:
  "mset xs = mset ys \<Longrightarrow> length (filter P xs) = length (filter P ys)"
proof -
  assume "mset xs = mset ys"
  then have "mset (filter P xs) = mset (filter P ys)" by simp
  then show ?thesis by (rule mset_eq_length)
qed

text \<open>
  Claim C2, as amended. For a batch of \<open>N\<close> records that passes the validation of the
  options, the selector and (when not forced) the confirmation, and for every order in
  which the workers finish: \<open>DeleteUploads\<close> returns nil exactly when every record of
  the batch passes \<open>Validate\<close> and the remote aborts it; when \<open>k > 0\<close> records fail,
  at \<open>Validate\<close> or at the remote, it returns the one error \<open>DeleteFailed k N\<close>; the
  requests sent to the remote are exactly one abort for every record that passes
  \<open>Validate\<close>, whatever the other deletions did, so a failure stops nothing and
  nothing is undone. For a batch of records that all pass \<open>Validate\<close>, nil is returned
  exactly when every abort call succeeded.
\<close>

theorem delete_batch_result:
  assumes "DeleteOptions_Validate opts = None" and "\<not> DryRun opts"
      and "filter (selected (clock env) opts) uploads = batch" and "batch \<noteq> []"
      and "Force opts \<or> promptForConfirmation (caseTables env) (confirmation env) = Inr True"
      and "mset (schedule env batch) = mset batch"
  shows "(dl_error (DeleteUploads env uploads opts) = None
            \<longleftrightarrow> (\<forall>u \<in> set batch. MultipartUpload_Validate u = None
                                   \<and> abortUpload env (abortInput u) = None))
       \<and> (0 < length (filter (deleteFails (abortUpload env)) batch) \<longrightarrow>
            dl_error (DeleteUploads env uploads opts)
              = Some (DeleteFailed (int (length (filter (deleteFails (abortUpload env)) batch)))
                        (int (length batch))))
       \<and> mset (dl_aborts (DeleteUploads env uploads opts))
           = image_mset abortInput (filter_mset (\<lambda>u. MultipartUpload_Validate u = None) (mset batch))
       \<and> ((\<forall>u \<in> set batch. MultipartUpload_Validate u = None) \<longrightarrow>
            (dl_error (DeleteUploads env uploads opts) = None
               \<longleftrightarrow> (\<forall>u \<in> set batch. abortUpload env (abortInput u) = None)))"
proof -
  let ?arrival = "schedule env batch"
  let ?run = "deleteUploadsWithProgress (abortUpload env) ?arrival"
  from assms(4,6) have ne: "?arrival \<noteq> []" by (metis mset_zero_iff)
  have len: "length ?arrival = length batch" using assms(6) by (rule mset_eq_length)
  have k: "length (filter (deleteFails (abortUpload env)) ?arrival)
             = length (filter (deleteFails (abortUpload env)) batch)"
    using assms(6) by (rule length_filter_mset)
  have e: "dl_error (DeleteUploads env uploads opts) = dl_error ?run"
    and a: "dl_aborts (DeleteUploads env uploads opts) = dl_aborts ?run"
    using assms(1-5) by (auto simp: DeleteUploads_def Let_def filterUploadsForDeletion_eq)
  have none: "(length (filter (deleteFails (abortUpload env)) batch) = 0)
                \<longleftrightarrow> (\<forall>u \<in> set batch. MultipartUpload_Validate u = None
                                      \<and> abortUpload env (abortInput u) = None)"
    by (auto simp: deleteFails_def filter_empty_conv)
  have "mset (dl_aborts ?run)
          = image_mset abortInput (filter_mset (\<lambda>u. MultipartUpload_Validate u = None) (mset ?arrival))"
    by (simp add: deleteUploadsWithProgress_result(2) [OF ne] mset_abort_calls)
  with assms(6) a have m: "mset (dl_aborts (DeleteUploads env uploads opts))
           = image_mset abortInput (filter_mset (\<lambda>u. MultipartUpload_Validate u = None) (mset batch))"
    by simp
  have 1: "dl_error (DeleteUploads env uploads opts) = None
            \<longleftrightarrow> (\<forall>u \<in> set batch. MultipartUpload_Validate u = None
                                   \<and> abortUpload env (abortInput u) = None)"
    using e k none by (simp add: deleteUploadsWithProgress_result(1) [OF ne])
  have 2: "0 < length (filter (deleteFails (abortUpload env)) batch) \<longrightarrow>
            dl_error (DeleteUploads env uploads opts)
              = Some (DeleteFailed (int (length (filter (deleteFails (abortUpload env)) batch)))
                        (int (length batch)))"
    using e k len by (simp add: deleteUploadsWithProgress_result(1) [OF ne] del: length_greater_0_conv)
  from 1 have 4: "(\<forall>u \<in> set batch. MultipartUpload_Validate u = None) \<longrightarrow>
            (dl_error (DeleteUploads env uploads opts) = None
               \<longleftrightarrow> (\<forall>u \<in> set batch. abortUpload env (abortInput u) = None))"
    by blast
  from 1 2 m 4 show ?thesis by blast
qed

text \<open>
  A batch of three: the remote aborts the first upload and refuses the second, and the
  third, whose key is a no-break space, does not pass \<open>Validate\<close>. Two deletions out
  of three fail and two aborts are sent.
\<close>

theorem delete_batch_result_witness:
  "DeleteOptions_Validate forceOptions = None \<and> \<not> DryRun forceOptions
   \<and> filter (selected (clock exampleEnv) forceOptions) mixedBatch = mixedBatch
   \<and> mixedBatch \<noteq> [] \<and> Force forceOptions
   \<and> mset (schedule exampleEnv mixedBatch) = mset mixedBatch
   \<and> length (filter (deleteFails (abortUpload exampleEnv)) mixedBatch) = 2
   \<and> length mixedBatch = 3
   \<and> dl_error (DeleteUploads exampleEnv mixedBatch forceOptions) = Some (DeleteFailed 2 3)
   \<and> mset (dl_aborts (DeleteUploads exampleEnv mixedBatch forceOptions))
       = {#abortInput (uploadOf bucketA), abortInput (uploadOf bucketB)#}"
proof -
  have h1: "DeleteOptions_Validate forceOptions = None"
    by (simp add: DeleteOptions_Validate_def forceOptions_def)
  have h2: "\<not> DryRun forceOptions" and h5: "Force forceOptions"
    by (simp_all add: forceOptions_def)
  have h3: "filter (selected (clock exampleEnv) forceOptions) mixedBatch = mixedBatch"
    by (simp add: filter_no_selector)
  have h4: "mixedBatch \<noteq> []" by (simp add: mixedBatch_def)
  have h6: "mset (schedule exampleEnv mixedBatch) = mset mixedBatch"
    by (simp add: exampleEnv_def)
  have ab: "abortUpload exampleEnv (abortInput (uploadOf bucketA)) = None"
    "abortUpload exampleEnv (abortInput (uploadOf bucketB)) \<noteq> None"
    by (simp_all add: exampleEnv_def abortInput_def uploadOf_def bucketA_def bucketB_def)
  have k: "length (filter (deleteFails (abortUpload exampleEnv)) mixedBatch) = 2"
    by (simp add: mixedBatch_def deleteFails_def threeUploads_valid blank_keys_invalid ab)
  have v: "filter_mset (\<lambda>u. MultipartUpload_Validate u = None) (mset mixedBatch)
             = {#uploadOf bucketA, uploadOf bucketB#}"
    by (simp add: mixedBatch_def threeUploads_valid blank_keys_invalid)
  have l: "length mixedBatch = 3" by (simp add: mixedBatch_def)
  note r = delete_batch_result [OF h1 h2 h3 h4 disjI1 [OF h5] h6]
  from r k l have e: "dl_error (DeleteUploads exampleEnv mixedBatch forceOptions)
                        = Some (DeleteFailed 2 3)"
    by simp
  from r v have a: "mset (dl_aborts (DeleteUploads exampleEnv mixedBatch forceOptions))
       = {#abortInput (uploadOf bucketA), abortInput (uploadOf bucketB)#}"
    by simp
  from e a k l h1 h2 h3 h4 h5 h6 show ?thesis by blast
qed

text \<open>
  The claim as stated fails: the batch is one record with an empty key and the remote
  aborts whatever it is asked to abort. No abort call fails, since none is made: the
  record does not pass \<open>Validate\<close>, and \<open>DeleteUploads\<close> returns the error of one
  failure out of one.
\<close>

theorem delete_invalid_record_counterexample:
  "(\<forall>input. abortUpload acceptingEnv input = None)
   \<and> DeleteOptions_Validate forceOptions = None \<and> \<not> DryRun forceOptions \<and> Force forceOptions
   \<and> filterUploadsForDeletion (clock acceptingEnv) [emptyKeyUpload] forceOptions = [emptyKeyUpload]
   \<and> dl_aborts (DeleteUploads acceptingEnv [emptyKeyUpload] forceOptions) = []
   \<and> dl_error (DeleteUploads acceptingEnv [emptyKeyUpload] forceOptions) = Some (DeleteFailed 1 1)"
  by (simp add: DeleteUploads_def DeleteOptions_Validate_def forceOptions_def acceptingEnv_def
        exampleEnv_def deleteUploadsWithProgress_def DeleteUpload_def blank_keys_invalid Let_def)


subsection \<open>Filter engine\<close>

lemma wrap64_id:
  "- 9223372036854775808 \<le> x \<Longrightarrow> x \<le> 9223372036854775807 \<Longrightarrow> wrap64 x = x"
  by (simp add: wrap64_def)

lemma absDuration_exact:
  assumes "\<bar>x\<bar> < 9223372036854775808"
  shows "absDuration (wrap64 x) = \<bar>x\<bar>"
proof -
  from assms have x: "wrap64 x = x" by (intro wrap64_id) auto
  from assms have nx: "wrap64 (- x) = - x" by (intro wrap64_id) auto
  show ?thesis by (simp add: absDuration_def x nx)
qed

lemma parse_7d: "parseAgeDuration lib ''7d'' = Inr (7 * 24 * Hour)"
  by (simp add: parseAgeDuration_def ParseFloat_def isDigit_def isNegative_def mulFloat_def
        toInt64_def truncRat_def Hour_def ToLower_def isASCII_def toLowerChar_def Let_def)

lemma parse_0d: "parseAgeDuration lib ''0d'' = Inr 0"
  by (simp add: parseAgeDuration_def ParseFloat_def isDigit_def isNegative_def mulFloat_def
        toInt64_def truncRat_def Hour_def ToLower_def isASCII_def toLowerChar_def Let_def)

text \<open>
  The window of one hour, where the durations of the code hold the quantities: for a
  record initiated less than \<open>2^63\<close> nanoseconds (about 292 years) from now, and a
  difference between its age and the duration \<open>d\<close> of the filter below \<open>2^63\<close>
  nanoseconds, \<open>=\<close> matches exactly when the age is within one hour of \<open>d\<close> and
  \<open>!=\<close> exactly when it is not.
\<close>

lemma age_window_in_range:
  assumes "parseAgeDuration lib (af_Value flt) = Inr d"
      and "\<bar>now - Initiated upload\<bar> \<le> 9223372036854775807"
      and "\<bar>now - Initiated upload - d\<bar> < 9223372036854775808"
  shows "af_Operator flt = ''='' \<Longrightarrow>
           matchesAgeFilter lib now upload flt \<longleftrightarrow> \<bar>now - Initiated upload - d\<bar> \<le> Hour"
    and "af_Operator flt = ''!='' \<Longrightarrow>
           matchesAgeFilter lib now upload flt \<longleftrightarrow> \<bar>now - Initiated upload - d\<bar> > Hour"
proof -
  have s: "Since now (Initiated upload) = now - Initiated upload"
    using assms(2) by (auto simp: Since_def minDuration_def maxDuration_def)
  have a: "absDuration (wrap64 (now - Initiated upload - d)) = \<bar>now - Initiated upload - d\<bar>"
    using assms(3) by (rule absDuration_exact)
  show "af_Operator flt = ''='' \<Longrightarrow>
           matchesAgeFilter lib now upload flt \<longleftrightarrow> \<bar>now - Initiated upload - d\<bar> \<le> Hour"
    using assms(1) by (simp add: matchesAgeFilter_def Let_def s a)
  show "af_Operator flt = ''!='' \<Longrightarrow>
           matchesAgeFilter lib now upload flt \<longleftrightarrow> \<bar>now - Initiated upload - d\<bar> > Hour"
    using assms(1) by (simp add: matchesAgeFilter_def Let_def s a)
qed

text \<open>
  \<open>age=7d\<close> matches a record aged 7 days and 1 hour and rejects one aged 7 days
  and 3 hours, 2 hours outside the window.
\<close>

lemma age_window_7d:
  "matchesAgeFilter lib 1700000000000000000
     (initiatedAt (1700000000000000000 - 7 * 24 * Hour - Hour)) weekFilter"
  "\<not> matchesAgeFilter lib 1700000000000000000
     (initiatedAt (1700000000000000000 - 7 * 24 * Hour - 3 * Hour)) weekFilter"
proof -
  have p: "parseAgeDuration lib (af_Value weekFilter) = Inr (7 * 24 * Hour)"
    by (simp add: weekFilter_def parse_7d)
  have o: "af_Operator weekFilter = ''=''" by (simp add: weekFilter_def)
  show "matchesAgeFilter lib 1700000000000000000
     (initiatedAt (1700000000000000000 - 7 * 24 * Hour - Hour)) weekFilter"
    by (subst age_window_in_range(1) [OF p _ _ o]) (simp_all add: initiatedAt_def Hour_def)
  show "\<not> matchesAgeFilter lib 1700000000000000000
     (initiatedAt (1700000000000000000 - 7 * 24 * Hour - 3 * Hour)) weekFilter"
    by (subst age_window_in_range(1) [OF p _ _ o]) (simp_all add: initiatedAt_def Hour_def)
qed

text \<open>
  Claim C6. The claim holds within the range above and fails outside it. For a record
  initiated on 31 December 9999, read on 14 November 2023 against \<open>age=0d\<close>, the
  difference between the age of the record and the duration of the filter is about
  eight thousand years. \<open>time.Since\<close> saturates at the least duration, \<open>-2^63\<close>
  nanoseconds, and \<open>diff = -diff\<close> leaves that value negative: it is below one hour, so
  \<open>=\<close> matches the record and \<open>!=\<close> rejects it.
\<close>

theorem age_tolerance_overflow:
  "parseAgeDuration lib (af_Value \<lparr> af_Operator = ''='', af_Value = ''0d'' \<rparr>) = Inr 0
   \<and> Hour < \<bar>1700000000000000000 - Initiated (initiatedAt 253402300799000000000) - 0\<bar>
   \<and> matchesAgeFilter lib 1700000000000000000 (initiatedAt 253402300799000000000)
        \<lparr> af_Operator = ''='', af_Value = ''0d'' \<rparr>
   \<and> \<not> matchesAgeFilter lib 1700000000000000000 (initiatedAt 253402300799000000000)
        \<lparr> af_Operator = ''!='', af_Value = ''0d'' \<rparr>
   \<and> Since 1700000000000000000 (Initiated (initiatedAt 253402300799000000000)) = minDuration
   \<and> absDuration (wrap64 (minDuration - 0)) = minDuration"
  by (simp add: matchesAgeFilter_def parse_0d Let_def Since_def initiatedAt_def minDuration_def
        maxDuration_def absDuration_def wrap64_def Hour_def)

lemma not_digit [simp]:
  "\<not> isDigit CHR '',''" "\<not> isDigit CHR 0x0A" "\<not> isDigit CHR ''+''" "\<not> isDigit CHR ''-''"
  by (simp_all add: isDigit_def)

lemma digit_facts:
  assumes "isDigit c"
  shows "\<not> isSpace c" "\<not> isReSpace c" "toUpperChar c = c" "(48::int) \<le> of_char c"
        "(of_char c :: nat) < 128"
proof -
  from assms have n: "(48::nat) \<le> of_char c" "(of_char c :: nat) \<le> 57" by (simp_all add: isDigit_def)
  from n show "\<not> isSpace c" by (auto simp: isSpace_def)
  from n show "\<not> isReSpace c" by (auto simp: isReSpace_def)
  from n show "toUpperChar c = c" by (simp add: toUpperChar_def)
  from n show "(of_char c :: nat) < 128" by simp
  have "(of_char c :: int) = int (of_char c)" by (rule of_nat_of_char [symmetric])
  with n(1) show "(48::int) \<le> of_char c" by linarith
qed

lemma digits_set:
  assumes "list_all isDigit ds"
  shows "CHR '','' \<notin> set ds" "CHR 0x0A \<notin> set ds"
  using assms by (auto simp: list_all_iff)

lemma digits_ends:
  assumes "list_all isDigit ds" and "ds \<noteq> []"
  shows "isDigit (hd ds)" "isDigit (last ds)"
  using assms by (auto simp: list_all_iff)

lemma digitsValue_nonneg:
  "list_all isDigit ds \<Longrightarrow> 0 \<le> n \<Longrightarrow> 0 \<le> digitsValue ds n"
proof (induction ds arbitrary: n)
  case Nil
  then show ?case by simp
next
  case (Cons c ds)
  from Cons.prems have "(48::int) \<le> of_char c" by (simp add: digit_facts)
  with Cons.prems have "0 \<le> 10 * n + (of_char c - 48)" by simp
  with Cons show ?case by simp
qed

lemma dropWhile_hd: "xs \<noteq> [] \<Longrightarrow> \<not> P (hd xs) \<Longrightarrow> dropWhile P xs = xs"
  by (cases xs) auto

lemma TrimSpace_digits:
  assumes "list_all isDigit ds"
  shows "TrimSpace ds = ds"
proof (cases "ds = []")
  case True
  then show ?thesis by (simp add: TrimSpace_Nil)
next
  case False
  with assms show ?thesis
    by (intro TrimSpace_id) (simp_all add: digits_ends digit_facts)
qed

lemma isASCII_digits: "list_all isDigit ds \<Longrightarrow> isASCII ds"
  by (induction ds) (simp_all add: isASCII_def digit_facts)

lemma map_toUpperChar_digits: "list_all isDigit ds \<Longrightarrow> map toUpperChar ds = ds"
  by (induction ds) (simp_all add: digit_facts)

lemma ToUpper_digits: "list_all isDigit ds \<Longrightarrow> ToUpper lib ds = ds"
  by (simp add: ToUpper_def isASCII_digits map_toUpperChar_digits)

lemma ParseInt_digits:
  assumes "list_all isDigit ds" and "ds \<noteq> []" and "digitsValue ds 0 \<le> 9223372036854775807"
  shows "ParseInt ds = Some (digitsValue ds 0)"
proof -
  from digits_ends(1) [OF assms(1,2)] have h: "hd ds \<noteq> CHR ''+''" "hd ds \<noteq> CHR ''-''"
    by auto
  from assms(1) have "0 \<le> digitsValue ds 0" by (rule digitsValue_nonneg) simp
  with assms h show ?thesis by (simp add: ParseInt_def Let_def)
qed

lemma parseSizeBytes_digits:
  assumes "list_all isDigit ds" and "2 \<le> length ds" and "digitsValue ds 0 \<le> 9223372036854775807"
  shows "parseSizeBytes lib ds = Inr (digitsValue ds 0)"
proof -
  from assms(2) have ne: "ds \<noteq> []" by auto
  from assms(1) have "0 \<le> digitsValue ds 0" by (rule digitsValue_nonneg) simp
  with assms show ?thesis
    by (simp add: parseSizeBytes_def TrimSpace_digits ToUpper_digits ParseInt_digits [OF assms(1) ne] Let_def)
qed

lemma splitComma_no_comma:
  "CHR '','' \<notin> set s \<Longrightarrow> splitComma s cur = [rev cur @ s]"
  by (induction s arbitrary: cur) auto

lemma matchRest_digits:
  assumes "list_all isDigit ds" and "ds \<noteq> []"
  shows "matchRest ds = Some ds"
proof -
  from digits_ends(1) [OF assms] have "\<not> isReSpace (hd ds)" by (simp add: digit_facts)
  with assms(2) have d: "dropWhile isReSpace ds = ds" by (intro dropWhile_hd)
  with digits_set(2) [OF assms(1)] assms(2) show ?thesis by (simp add: matchRest_def Let_def)
qed

lemma word_chars:
  "isWordChar CHR ''s''" "isWordChar CHR ''i''" "isWordChar CHR ''z''" "isWordChar CHR ''e''"
  "\<not> isWordChar CHR ''=''" "\<not> isReSpace CHR ''=''"
  by (simp_all add: isWordChar_def isDigit_def isReSpace_def)

lemma matchCondition_size_eq:
  assumes "list_all isDigit ds" and "ds \<noteq> []"
  shows "matchCondition (CHR ''s'' # CHR ''i'' # CHR ''z'' # CHR ''e'' # CHR ''='' # ds)
           = Some (''size'', ''='', ds)"
proof -
  obtain c cs where ds: "ds = c # cs" using assms(2) by (cases ds) auto
  have t: "tryOperators [''>='', ''<='', ''!='', ''>'', ''<'', ''=''] (CHR ''='' # ds) = Some (''='', ds)"
    by (simp add: matchRest_digits [OF assms])
  show ?thesis
    by (simp add: matchCondition_def word_chars Let_def t del: tryOperators.simps)
qed

lemma TrimSpace_size_eq:
  assumes "list_all isDigit ds" and "ds \<noteq> []"
  shows "TrimSpace (CHR ''s'' # CHR ''i'' # CHR ''z'' # CHR ''e'' # CHR ''='' # ds)
           = CHR ''s'' # CHR ''i'' # CHR ''z'' # CHR ''e'' # CHR ''='' # ds"
proof (rule TrimSpace_id)
  show "CHR ''s'' # CHR ''i'' # CHR ''z'' # CHR ''e'' # CHR ''='' # ds \<noteq> []" by simp
  show "\<not> isSpace (hd (CHR ''s'' # CHR ''i'' # CHR ''z'' # CHR ''e'' # CHR ''='' # ds))"
    by (simp add: isSpace_def)
  from digits_ends(2) [OF assms] have "\<not> isSpace (last ds)" by (rule digit_facts(1))
  with assms(2) show "\<not> isSpace (last (CHR ''s'' # CHR ''i'' # CHR ''z'' # CHR ''e'' # CHR ''='' # ds))"
    by simp
  show "(of_char (hd (CHR ''s'' # CHR ''i'' # CHR ''z'' # CHR ''e'' # CHR ''='' # ds)) :: nat) < 128"
    by simp
  from digits_ends(2) [OF assms] have "(of_char (last ds) :: nat) < 128" by (rule digit_facts(5))
  with assms(2)
  show "(of_char (last (CHR ''s'' # CHR ''i'' # CHR ''z'' # CHR ''e'' # CHR ''='' # ds)) :: nat) < 128"
    by simp
qed

lemma size_bare_integer_parsed:
  assumes "list_all isDigit ds" and "2 \<le> length ds" and "digitsValue ds 0 \<le> 9223372036854775807"
  shows "ParseFilter lib (''size='' @ ds)
           = Inr (emptyFilter \<lparr> f_Size := Some \<lparr> sf_Operator = ''='', sf_Value = ds \<rparr> \<rparr>)"
    and "matchesSizeFilter lib upload \<lparr> sf_Operator = ''='', sf_Value = ds \<rparr>
           \<longleftrightarrow> Size upload = digitsValue ds 0"
    and "matchesSizeFilter lib upload \<lparr> sf_Operator = ''!='', sf_Value = ds \<rparr>
           \<longleftrightarrow> Size upload \<noteq> digitsValue ds 0"
proof -
  from assms(2) have ne: "ds \<noteq> []" by auto
  note p = parseSizeBytes_digits [OF assms]
  let ?c = "CHR ''s'' # CHR ''i'' # CHR ''z'' # CHR ''e'' # CHR ''='' # ds"
  have nc: "CHR '','' \<notin> set ?c" using digits_set(1) [OF assms(1)] by simp
  have t: "TrimSpace ?c = ?c" using assms(1) ne by (rule TrimSpace_size_eq)
  have s: "splitComma ?c [] = [?c]"
    using splitComma_no_comma [OF nc, of "[]"] by simp
  have c: "parseCondition lib ?c emptyFilter
             = Inr (emptyFilter \<lparr> f_Size := Some \<lparr> sf_Operator = ''='', sf_Value = ds \<rparr> \<rparr>)"
    by (simp add: parseCondition_def matchCondition_size_eq [OF assms(1) ne] Let_def
          ToLower_def isASCII_def toLowerChar_def TrimSpace_digits [OF assms(1)] emptyFilter_def
          validateSizeOperator_def validateSizeValue_def p)
  have "ParseFilter lib ?c
           = Inr (emptyFilter \<lparr> f_Size := Some \<lparr> sf_Operator = ''='', sf_Value = ds \<rparr> \<rparr>)"
    unfolding ParseFilter_def s t using c t by (simp add: Let_def)
  then show "ParseFilter lib (''size='' @ ds)
           = Inr (emptyFilter \<lparr> f_Size := Some \<lparr> sf_Operator = ''='', sf_Value = ds \<rparr> \<rparr>)"
    by simp
  show "matchesSizeFilter lib upload \<lparr> sf_Operator = ''='', sf_Value = ds \<rparr>
           \<longleftrightarrow> Size upload = digitsValue ds 0"
    by (simp add: matchesSizeFilter_def p)
  show "matchesSizeFilter lib upload \<lparr> sf_Operator = ''!='', sf_Value = ds \<rparr>
           \<longleftrightarrow> Size upload \<noteq> digitsValue ds 0"
    by (simp add: matchesSizeFilter_def p)
qed

lemma size_100MB_in_bytes:
  "ParseFilter lib ''size=104857600''
     = Inr (emptyFilter \<lparr> f_Size := Some \<lparr> sf_Operator = ''='', sf_Value = ''104857600'' \<rparr> \<rparr>)"
  "matchesSizeFilter lib upload \<lparr> sf_Operator = ''='', sf_Value = ''104857600'' \<rparr>
     \<longleftrightarrow> Size upload = 100 * 1024 * 1024"
  using size_bare_integer_parsed(1) [of "''104857600''" lib]
    size_bare_integer_parsed(2) [of "''104857600''" lib upload]
  by (simp_all add: isDigit_def)


text \<open>
  Claim C8. The claim holds for the integers of two digits and more that \<open>int64\<close>
  holds (\<open>size_bare_integer_parsed\<close>, with \<open>size=104857600\<close> as an instance), and
  \<open>=\<close> and \<open>!=\<close> compare integers exactly. It fails for the integers of one digit:
  \<open>parseSizeBytes\<close> rejects every value shorter than two characters before it looks
  for a bare integer, so \<open>size=5\<close> is a parse error.
\<close>

theorem size_single_digit_rejected:
  "ParseFilter lib ''size=5''
     = Inl (Wrap (''invalid filter condition '' @ quoted ''size=5'')
              (Errorf (''invalid size format '' @ quoted ''5'')))"
  by (simp add: ParseFilter_def TrimSpace_id isSpace_def parseCondition_def matchCondition_def
        isWordChar_def isDigit_def isReSpace_def matchRest_def ToLower_def toLowerChar_def
        validateSizeOperator_def validateSizeValue_def parseSizeBytes_def ToUpper_def isASCII_def
        toUpperChar_def emptyFilter_def Let_def)


end
